theory Spec2Isabelle
  imports Complex_Main "HOL-Library.Char_ord" "HOL-Library.List_Lexorder"
begin

section \<open>Numbers\<close>

text \<open>
  Go's \<open>int32\<close> and \<open>int\<close> values are modelled as \<open>int\<close>; the one narrowing
  conversion of the controller, \<open>int32(totalReplicaCount)\<close>, wraps around and is written
  out. \<open>int\<close> is taken to be 64 bits wide.
\<close>

definition int32_of_int :: "int \<Rightarrow> int" where
  "int32_of_int n = (n + 2 ^ 31) mod 2 ^ 32 - 2 ^ 31"

text \<open>
  A finite \<open>float64\<close> is modelled by the rational number it denotes. Every arithmetic
  operation of IEEE 754 binary64 returns the exact result rounded to 53 significant bits,
  ties to even: \<open>float64_round\<close>. The operands of \<open>calculateReplicaCountFromPercentage\<close>
  come from \<open>int32\<close> values, so no result leaves the normal range (no overflow, no
  subnormal), and the model has neither infinities nor NaN.
\<close>

fun bitlength :: "nat \<Rightarrow> nat" where
  "bitlength n = (if n = 0 then 0 else Suc (bitlength (n div 2)))"

declare bitlength.simps [simp del]

definition pow2 :: "int \<Rightarrow> rat" where
  "pow2 e = (if 0 \<le> e then 2 ^ nat e else 1 / 2 ^ nat (- e))"

text \<open>The binary exponent of a positive rational: \<open>pow2 e \<le> x < pow2 (e + 1)\<close>.\<close>

definition exponent2 :: "rat \<Rightarrow> int" where
  "exponent2 x =
     (if 1 \<le> x then int (bitlength (nat \<lfloor>x\<rfloor>)) - 1
      else - int (bitlength (nat (\<lceil>1 / x\<rceil> - 1))))"

definition round_half_even :: "rat \<Rightarrow> int" where
  "round_half_even x =
     (let f = \<lfloor>x\<rfloor>; d = x - of_int f
      in if d < 1 / 2 then f
         else if 1 / 2 < d then f + 1
         else if even f then f else f + 1)"

definition float64_round :: "rat \<Rightarrow> rat" where
  "float64_round x =
     (if x = 0 then 0
      else let u = pow2 (exponent2 \<bar>x\<bar> - 52)
           in of_int (round_half_even (x / u)) * u)"

definition float64_of_int32 :: "int \<Rightarrow> rat" where
  "float64_of_int32 n = of_int n"

definition float64_div :: "rat \<Rightarrow> rat \<Rightarrow> rat" where
  "float64_div a b = float64_round (a / b)"

definition float64_mul :: "rat \<Rightarrow> rat \<Rightarrow> rat" where
  "float64_mul a b = float64_round (a * b)"

text \<open>\<open>math.Ceil\<close> is exact: the ceiling of a binary64 value is a binary64 value.\<close>

definition math_Ceil :: "rat \<Rightarrow> rat" where
  "math_Ceil x = of_int \<lceil>x\<rceil>"

text \<open>
  The conversion \<open>int32(f)\<close> truncates towards zero. Out of the range of \<open>int32\<close> Go
  leaves the result to the implementation; the model returns what amd64 returns there.
\<close>

definition int32_of_float64 :: "rat \<Rightarrow> int" where
  "int32_of_float64 x =
     (let t = (if 0 \<le> x then \<lfloor>x\<rfloor> else \<lceil>x\<rceil>)
      in if - (2 ^ 31) \<le> t \<and> t < 2 ^ 31 then t else - (2 ^ 31))"

subsection \<open>Capacity math\<close>

text \<open>
  \<^verbatim>\<open>
  func (c Controller) calculateReplicaCountFromPercentage(total, percentage int32) int32 {
      result := float64(percentage) / 100 * float64(total)
      return int32(math.Ceil(result))
  }
  \<close>
\<close>

definition calculateReplicaCountFromPercentage :: "int \<Rightarrow> int \<Rightarrow> int" where
  "calculateReplicaCountFromPercentage total' percentage =
     (let result = float64_mul (float64_div (float64_of_int32 percentage) 100)
                               (float64_of_int32 total')
      in int32_of_float64 (math_Ceil result))"

text \<open>
  The replica count in exact arithmetic, \<open>ceil(percent / 100 * total)\<close>, against which
  the floating-point computation is compared.
\<close>

definition DesiredReplicas_exact :: "int \<Rightarrow> int \<Rightarrow> int" where
  "DesiredReplicas_exact total' percent = \<lceil>(of_int percent :: rat) / 100 * of_int total'\<rceil>"

subsection \<open>Library functions the sync handler calls\<close>

text \<open>\<open>strings.Split\<close> with a one-character separator.\<close>

fun splitOn :: "char \<Rightarrow> string \<Rightarrow> string list" where
  "splitOn sep [] = [[]]"
| "splitOn sep (c # cs) =
     (if c = sep then [] # splitOn sep cs
      else (case splitOn sep cs of
              [] \<Rightarrow> [[c]]
            | p # ps \<Rightarrow> (c # p) # ps))"

text \<open>
  \<open>cache.SplitMetaNamespaceKey\<close>: one part is a name without namespace, two parts are
  namespace and name, anything else is an error (\<open>None\<close>).
\<close>

definition SplitMetaNamespaceKey :: "string \<Rightarrow> (string \<times> string) option" where
  "SplitMetaNamespaceKey key =
     (case splitOn (CHR ''/'') key of
        [name] \<Rightarrow> Some ([], name)
      | [namespace, name] \<Rightarrow> Some (namespace, name)
      | _ \<Rightarrow> None)"

text \<open>The value of a decimal digit, from its byte (\<open>ch - '0'\<close>, an error above 9).\<close>

definition digit_value :: "char \<Rightarrow> int option" where
  "digit_value ch =
     (let b = (of_char ch :: nat)
      in if 48 \<le> b \<and> b \<le> 57 then Some (int b - 48) else None)"

fun parse_digits :: "int \<Rightarrow> string \<Rightarrow> int option" where
  "parse_digits n [] = Some n"
| "parse_digits n (ch # s) =
     (case digit_value ch of
        None \<Rightarrow> None
      | Some d \<Rightarrow> parse_digits (n * 10 + d) s)"

text \<open>
  \<open>strconv.Atoi\<close>: an optional sign, at least one decimal digit, nothing else, and a
  value that fits \<open>int\<close>; \<open>None\<close> stands for the error.
\<close>

definition Atoi :: "string \<Rightarrow> int option" where
  "Atoi s =
     (let neg = (case s of [] \<Rightarrow> False | c # _ \<Rightarrow> c = CHR ''-'');
          ds = (case s of [] \<Rightarrow> []
                | c # r \<Rightarrow> if c = CHR ''-'' then r else if c = CHR ''+'' then r else s)
      in if ds = [] then None
         else (case parse_digits 0 ds of
                 None \<Rightarrow> None
               | Some n \<Rightarrow>
                   (let v = (if neg then - n else n)
                    in if - (2 ^ 63) \<le> v \<and> v < 2 ^ 63 then Some v else None)))"

section \<open>API objects\<close>

text \<open>
  The fields are those that \<open>capacity_controller.go\<close> reads and writes. The file
  \<open>types.go\<close> among the sources is of another revision: its \<open>ClusterCapacityTarget\<close> has
  \<open>Name\<close> and \<open>Replicas\<close>, its \<open>ClusterCapacityStatus\<close> has \<open>Name\<close>,
  \<open>AchievedReplicas\<close> and \<open>Status\<close>, while the controller reads \<open>Percent\<close> and writes
  \<open>AvailableReplicas\<close>, \<open>AchievedPercent\<close>, \<open>SadPods\<close> and the conditions. The records
  follow the controller. Error values and the texts built from them with \<open>fmt\<close> are kept
  as terms: an error is its constructor with the arguments of its message.
\<close>

type_synonym meta_key = "string \<times> string"

datatype error =
    ExternalError string
  | NotFoundError string
  | MultipleOwnerReferencesError string nat
  | ReleaseIsGoneError meta_key string string
  | ReplicasParseError string
  | DeploymentCountError string string "(string \<times> string) list" nat
  | InvalidPodCountError int int

definition IsNotFound :: "error \<Rightarrow> bool" where
  "IsNotFound e = (case e of NotFoundError _ \<Rightarrow> True | _ \<Rightarrow> False)"

datatype ConditionStatus = ConditionTrue | ConditionFalse | ConditionUnknown

datatype ClusterConditionType = ClusterConditionTypeOperational | ClusterConditionTypeReady

text \<open>The reasons of package \<open>conditions\<close>; \<open>NoReason\<close> is the empty string.\<close>

datatype ConditionReason = NoReason | ServerError | WrongPodCount | PodsNotReady | MissingDeployment

datatype ConditionMessage = NoMessage | ErrorMessage error | SadPodsMessage int

record ClusterCapacityCondition =
  cond_Type :: ClusterConditionType
  cond_Status :: ConditionStatus
  cond_Reason :: ConditionReason
  cond_Message :: ConditionMessage

datatype PodStatus = PodStatus string

record ClusterCapacityStatus =
  status_Name :: string
  AvailableReplicas :: int
  AchievedPercent :: int
  SadPods :: "PodStatus list"
  Conditions :: "ClusterCapacityCondition list"

record ClusterCapacityTarget =
  target_Name :: string
  Percent :: int

record OwnerReference =
  owner_Name :: string
  owner_UID :: string

record Release =
  release_UID :: string
  release_Annotations :: "(string \<times> string) list"

text \<open>\<open>Spec_Replicas\<close> is the pointer \<open>Spec.Replicas\<close>; \<open>None\<close> is \<open>nil\<close>.\<close>

record Deployment =
  deployment_Namespace :: string
  deployment_Name :: string
  Spec_Replicas :: "int option"
  Status_AvailableReplicas :: int

record CapacityTarget =
  ct_Namespace :: string
  ct_Name :: string
  ct_Labels :: "(string \<times> string) list"
  OwnerReferences :: "OwnerReference list"
  Spec_Clusters :: "ClusterCapacityTarget list"
  Status_Clusters :: "ClusterCapacityStatus list"

definition MetaKey_ct :: "CapacityTarget \<Rightarrow> meta_key" where
  "MetaKey_ct ct = (ct_Namespace ct, ct_Name ct)"

definition MetaKey_deployment :: "Deployment \<Rightarrow> meta_key" where
  "MetaKey_deployment d = (deployment_Namespace d, deployment_Name d)"

text \<open>A read of a Go map: a missing key gives the empty string.\<close>

definition annotation :: "(string \<times> string) list \<Rightarrow> string \<Rightarrow> string" where
  "annotation m k = (case map_of m k of None \<Rightarrow> [] | Some v \<Rightarrow> v)"

subsection \<open>Conditions\<close>

text \<open>
  Modelled from the spec: package \<open>pkg/util/cluster\<close> (\<open>NewClusterCapacityCondition\<close>,
  \<open>GetClusterCapacityCondition\<close>, \<open>SetClusterCapacityCondition\<close>) is not among the
  sources. The spec: Set "inserts or updates the condition of the given type. If an
  existing condition of that type has an identical status, reason, and message, it is left
  untouched"; Get returns not-found when absent. The transition time is not modelled.
\<close>

definition NewClusterCapacityCondition ::
  "ClusterConditionType \<Rightarrow> ConditionStatus \<Rightarrow> ConditionReason \<Rightarrow> ConditionMessage
     \<Rightarrow> ClusterCapacityCondition" where
  "NewClusterCapacityCondition t s r m =
     \<lparr>cond_Type = t, cond_Status = s, cond_Reason = r, cond_Message = m\<rparr>"

definition GetClusterCapacityCondition ::
  "ClusterCapacityStatus \<Rightarrow> ClusterConditionType \<Rightarrow> ClusterCapacityCondition option" where
  "GetClusterCapacityCondition status t = find (\<lambda>c. cond_Type c = t) (Conditions status)"

definition SetClusterCapacityCondition ::
  "ClusterCapacityStatus \<Rightarrow> ClusterCapacityCondition \<Rightarrow> ClusterCapacityStatus" where
  "SetClusterCapacityCondition status condition =
     (case GetClusterCapacityCondition status (cond_Type condition) of
        None \<Rightarrow> status\<lparr>Conditions := Conditions status @ [condition]\<rparr>
      | Some current \<Rightarrow>
          if cond_Status current = cond_Status condition
             \<and> cond_Reason current = cond_Reason condition
             \<and> cond_Message current = cond_Message condition
          then status
          else status\<lparr>Conditions :=
                 filter (\<lambda>c. cond_Type c \<noteq> cond_Type condition) (Conditions status)
                 @ [condition]\<rparr>)"

text \<open>
  Modelled from the spec: the type \<open>byClusterName\<close> is not among the sources. The spec:
  the handler "sorts the resulting status list by cluster name before persisting". Names
  compare as Go strings do, byte by byte. \<open>sort.Sort\<close> promises no order between entries
  of equal name; the model keeps them in their order.
\<close>

definition sort_byClusterName :: "ClusterCapacityStatus list \<Rightarrow> ClusterCapacityStatus list" where
  "sort_byClusterName cs = sort_key status_Name cs"

section \<open>The world outside the controller\<close>

datatype EventType = EventTypeNormal | EventTypeWarning

datatype EventMessage =
    ErrorEvent error
  | ScaledEvent meta_key int
  | StatusSetEvent meta_key "ClusterCapacityStatus list"

text \<open>
  Every call that leaves the controller is recorded, in order: the lookups in the cluster
  client store, the listings in a target cluster's cache, the patch, the events and the
  update of the capacity target.
\<close>

datatype action =
    GetInformerFactoryCall string
  | ListDeploymentsCall string string "(string \<times> string) list"
  | GetClientCall string
  | PatchCall string string string int
  | ListPodsCall Deployment string
  | EventCall EventType string EventMessage
  | UpdateCall CapacityTarget

text \<open>
  The collaborators are parameters. An answer may depend on everything that was called
  before it, so each of them reads the actions recorded so far.
  \<open>getSadPodsForDeploymentOnCluster\<close> answers with the pod count, the number of sad pods
  and the sad pods; \<open>calculatePercentageFromAmount\<close> returns one \<open>int32\<close>, as its call
  shows. Neither is among the sources, and neither is the constant
  \<open>ReleaseReplicasAnnotation\<close>.
\<close>

record Env =
  ReleaseReplicasAnnotation :: string
  getCapacityTarget :: "string \<Rightarrow> string \<Rightarrow> error + CapacityTarget"
  getRelease :: "string \<Rightarrow> string \<Rightarrow> error + Release"
  GetInformerFactory :: "action list \<Rightarrow> string \<Rightarrow> error option"
  ListDeployments ::
    "action list \<Rightarrow> string \<Rightarrow> string \<Rightarrow> (string \<times> string) list \<Rightarrow> error + Deployment list"
  GetClient :: "action list \<Rightarrow> string \<Rightarrow> error option"
  Patch :: "action list \<Rightarrow> string \<Rightarrow> string \<Rightarrow> string \<Rightarrow> int \<Rightarrow> error + Deployment"
  getSadPodsForDeploymentOnCluster ::
    "action list \<Rightarrow> Deployment \<Rightarrow> string \<Rightarrow> error + (int \<times> int \<times> PodStatus list)"
  calculatePercentageFromAmount :: "int \<Rightarrow> int \<Rightarrow> int"
  Update :: "action list \<Rightarrow> CapacityTarget \<Rightarrow> error option"

section \<open>The state of one sync\<close>

text \<open>
  \<open>clusterStatus\<close> is a pointer. It points either into the slice \<open>ct.Status.Clusters\<close>
  (line 262) or to the struct allocated at line 267, of which line 270 appends a copy to
  the slice. The state keeps both apart: \<open>st_Clusters\<close> is the slice, \<open>st_local\<close> the
  allocated struct.
\<close>

datatype status_ptr = InSlice nat | Local

record sync_state =
  st_Clusters :: "ClusterCapacityStatus list"
  st_local :: ClusterCapacityStatus
  st_trace :: "action list"

datatype 'a run = Returns 'a sync_state | Panics sync_state

definition deref :: "status_ptr \<Rightarrow> sync_state \<Rightarrow> ClusterCapacityStatus" where
  "deref p st = (case p of InSlice i \<Rightarrow> st_Clusters st ! i | Local \<Rightarrow> st_local st)"

definition modify ::
  "status_ptr \<Rightarrow> (ClusterCapacityStatus \<Rightarrow> ClusterCapacityStatus) \<Rightarrow> sync_state \<Rightarrow> sync_state" where
  "modify p f st =
     (case p of
        InSlice i \<Rightarrow> st\<lparr>st_Clusters := (st_Clusters st)[i := f (st_Clusters st ! i)]\<rparr>
      | Local \<Rightarrow> st\<lparr>st_local := f (st_local st)\<rparr>)"

definition record_action :: "action \<Rightarrow> sync_state \<Rightarrow> sync_state" where
  "record_action a st = st\<lparr>st_trace := st_trace st @ [a]\<rparr>"

definition setCondition ::
  "status_ptr \<Rightarrow> ClusterConditionType \<Rightarrow> ConditionStatus \<Rightarrow> ConditionReason \<Rightarrow> ConditionMessage
     \<Rightarrow> sync_state \<Rightarrow> sync_state" where
  "setCondition p t s r m st =
     modify p (\<lambda>status. SetClusterCapacityCondition status (NewClusterCapacityCondition t s r m)) st"

definition zero_ClusterCapacityStatus :: "string \<Rightarrow> ClusterCapacityStatus" where
  "zero_ClusterCapacityStatus name =
     \<lparr>status_Name = name, AvailableReplicas = 0, AchievedPercent = 0, SadPods = [],
      Conditions = []\<rparr>"

section \<open>The controller\<close>

subsection \<open>getReleaseForCapacityTarget\<close>

definition getReleaseForCapacityTarget :: "Env \<Rightarrow> CapacityTarget \<Rightarrow> error + Release" where
  "getReleaseForCapacityTarget env capacityTarget =
     (let n = length (OwnerReferences capacityTarget)
      in if n \<noteq> 1 then Inl (MultipleOwnerReferencesError (ct_Name capacityTarget) n)
         else (let owner = OwnerReferences capacityTarget ! 0
               in case getRelease env (ct_Namespace capacityTarget) (owner_Name owner) of
                    Inl err \<Rightarrow> Inl err
                  | Inr release \<Rightarrow>
                      if release_UID release \<noteq> owner_UID owner
                      then Inl (ReleaseIsGoneError (MetaKey_ct capacityTarget) (owner_UID owner)
                                  (release_UID release))
                      else Inr release))"

subsection \<open>findTargetDeploymentForClusterSpec\<close>

definition findTargetDeploymentForClusterSpec ::
  "Env \<Rightarrow> ClusterCapacityTarget \<Rightarrow> string \<Rightarrow> (string \<times> string) list \<Rightarrow> status_ptr \<Rightarrow> sync_state
     \<Rightarrow> (error + Deployment) \<times> sync_state" where
  "findTargetDeploymentForClusterSpec env clusterSpec targetNamespace selector clusterStatus st =
     (let name = target_Name clusterSpec;
          st1 = record_action (GetInformerFactoryCall name) st
      in case GetInformerFactory env (st_trace st) name of
           Some clusterErr \<Rightarrow>
             (Inl clusterErr,
              setCondition clusterStatus ClusterConditionTypeOperational ConditionFalse ServerError
                (ErrorMessage clusterErr) st1)
         | None \<Rightarrow>
             (let st2 = record_action (ListDeploymentsCall name targetNamespace selector) st1
              in case ListDeployments env (st_trace st1) name targetNamespace selector of
                   Inl clusterErr \<Rightarrow>
                     (Inl clusterErr,
                      setCondition clusterStatus ClusterConditionTypeOperational ConditionFalse
                        ServerError (ErrorMessage clusterErr) st2)
                 | Inr deploymentsList \<Rightarrow>
                     (let l = length deploymentsList
                      in if l \<noteq> 1
                         then (let clusterErr =
                                     DeploymentCountError name targetNamespace selector l
                               in (Inl clusterErr,
                                   setCondition clusterStatus ClusterConditionTypeReady
                                     ConditionFalse MissingDeployment (ErrorMessage clusterErr)
                                     st2))
                         else (Inr (deploymentsList ! 0), st2))))"

subsection \<open>patchDeploymentWithReplicaCount\<close>

definition patchDeploymentWithReplicaCount ::
  "Env \<Rightarrow> Deployment \<Rightarrow> string \<Rightarrow> int \<Rightarrow> status_ptr \<Rightarrow> sync_state
     \<Rightarrow> (error + Deployment) \<times> sync_state" where
  "patchDeploymentWithReplicaCount env targetDeployment clusterName replicaCount clusterStatus st =
     (let st1 = record_action (GetClientCall clusterName) st
      in case GetClient env (st_trace st) clusterName of
           Some clusterErr \<Rightarrow>
             (Inl clusterErr,
              setCondition clusterStatus ClusterConditionTypeOperational ConditionFalse ServerError
                (ErrorMessage clusterErr) st1)
         | None \<Rightarrow>
             (let st2 = record_action
                          (PatchCall clusterName (deployment_Namespace targetDeployment)
                             (deployment_Name targetDeployment) replicaCount) st1
              in case Patch env (st_trace st1) clusterName (deployment_Namespace targetDeployment)
                        (deployment_Name targetDeployment) replicaCount of
                   Inl clusterErr \<Rightarrow>
                     (Inl clusterErr,
                      setCondition clusterStatus ClusterConditionTypeOperational ConditionFalse
                        ServerError (ErrorMessage clusterErr) st2)
                 | Inr updatedDeployment \<Rightarrow> (Inr updatedDeployment, st2)))"

subsection \<open>getSadPods\<close>

text \<open>
  Line 412 tests \<open>targetDeployment.Spec.Replicas == nil || int(*Spec.Replicas) != podCount\<close>
  and line 413 then reads \<open>*targetDeployment.Spec.Replicas\<close>: with a nil pointer the test
  holds by its first half and the read panics.
\<close>

definition getSadPods ::
  "Env \<Rightarrow> Deployment \<Rightarrow> status_ptr \<Rightarrow> sync_state \<Rightarrow> (error + PodStatus list) run" where
  "getSadPods env targetDeployment clusterStatus st =
     (let name = status_Name (deref clusterStatus st);
          st1 = record_action (ListPodsCall targetDeployment name) st
      in case getSadPodsForDeploymentOnCluster env (st_trace st) targetDeployment name of
           Inl err \<Rightarrow>
             Returns (Inl err)
               (setCondition clusterStatus ClusterConditionTypeOperational ConditionFalse
                  ServerError (ErrorMessage err) st1)
         | Inr (podCount, sadPodsCount, sadPods) \<Rightarrow>
             (case Spec_Replicas targetDeployment of
                None \<Rightarrow> Panics st1
              | Some replicas \<Rightarrow>
                  if replicas \<noteq> podCount
                  then (let err = InvalidPodCountError replicas (int32_of_int podCount)
                        in Returns (Inl err)
                             (setCondition clusterStatus ClusterConditionTypeReady ConditionFalse
                                WrongPodCount (ErrorMessage err) st1))
                  else Returns (Inr sadPods)
                         (if 0 < sadPodsCount
                          then setCondition clusterStatus ClusterConditionTypeReady ConditionFalse
                                 PodsNotReady (SadPodsMessage sadPodsCount) st1
                          else st1)))"

subsection \<open>capacityTargetSyncHandler\<close>

definition recordErrorEvent :: "error \<Rightarrow> sync_state \<Rightarrow> sync_state" where
  "recordErrorEvent err st =
     record_action (EventCall EventTypeWarning ''FailedCapacityChange'' (ErrorEvent err)) st"

text \<open>
  Lines 257 to 264: the search runs over the whole slice, so the last entry of the name is
  the one found. \<open>None\<close> is the nil pointer.
\<close>

fun findClusterStatus ::
  "string \<Rightarrow> ClusterCapacityStatus list \<Rightarrow> nat \<Rightarrow> status_ptr option \<Rightarrow> status_ptr option" where
  "findClusterStatus name [] i clusterStatus = clusterStatus"
| "findClusterStatus name (cs # rest) i clusterStatus =
     findClusterStatus name rest (Suc i)
       (if status_Name cs = name then Some (InSlice i) else clusterStatus)"

text \<open>Lines 254 to 271: the pointer, and the slice with the copy appended.\<close>

definition resolveClusterStatus ::
  "ClusterCapacityTarget \<Rightarrow> sync_state \<Rightarrow> status_ptr \<times> sync_state" where
  "resolveClusterStatus clusterSpec st =
     (case findClusterStatus (target_Name clusterSpec) (st_Clusters st) 0 None of
        Some clusterStatus \<Rightarrow> (clusterStatus, st)
      | None \<Rightarrow>
          (let fresh = zero_ClusterCapacityStatus (target_Name clusterSpec)
           in (Local, st\<lparr>st_local := fresh, st_Clusters := st_Clusters st @ [fresh]\<rparr>)))"

text \<open>Lines 297 to 326: the status update from the deployment and its pods.\<close>

definition updateClusterStatus ::
  "Env \<Rightarrow> int \<Rightarrow> Deployment \<Rightarrow> int \<Rightarrow> status_ptr \<Rightarrow> sync_state \<Rightarrow> unit run" where
  "updateClusterStatus env totalReplicaCount targetDeployment replicaCount clusterStatus st =
     (let st1 = modify clusterStatus
                  (\<lambda>s. s\<lparr>AvailableReplicas := Status_AvailableReplicas targetDeployment\<rparr>) st;
          st2 = modify clusterStatus
                  (\<lambda>s. s\<lparr>AchievedPercent :=
                          calculatePercentageFromAmount env (int32_of_int totalReplicaCount)
                            (AvailableReplicas s)\<rparr>) st1
      in case getSadPods env targetDeployment clusterStatus st2 of
           Panics st3 \<Rightarrow> Panics st3
         | Returns (Inl err) st3 \<Rightarrow> Returns () st3
         | Returns (Inr sadPods) st3 \<Rightarrow>
             if 0 < length sadPods
             then Returns () (modify clusterStatus (\<lambda>s. s\<lparr>SadPods := sadPods\<rparr>) st3)
             else (let st4 = setCondition clusterStatus ClusterConditionTypeReady ConditionTrue
                               NoReason NoMessage st3;
                       st5 = setCondition clusterStatus ClusterConditionTypeOperational
                               ConditionTrue NoReason NoMessage st4
                   in Returns ()
                        (record_action
                           (EventCall EventTypeNormal ''CapacityChanged''
                              (ScaledEvent (MetaKey_deployment targetDeployment) replicaCount))
                           st5)))"

text \<open>
  Lines 287 to 295: the patch, issued when the replica count is unset or differs. The
  deployment the patch returns is dropped (\<open>_, err = ...\<close>); \<open>None\<close> is no error.
\<close>

definition patchIfNeeded ::
  "Env \<Rightarrow> Deployment \<Rightarrow> string \<Rightarrow> int \<Rightarrow> status_ptr \<Rightarrow> sync_state
     \<Rightarrow> error option \<times> sync_state" where
  "patchIfNeeded env targetDeployment clusterName replicaCount clusterStatus st =
     (if (case Spec_Replicas targetDeployment of
            None \<Rightarrow> True
          | Some replicas \<Rightarrow> replicaCount \<noteq> replicas)
      then (case patchDeploymentWithReplicaCount env targetDeployment clusterName replicaCount
                   clusterStatus st of
              (Inl err, st') \<Rightarrow> (Some err, st')
            | (Inr updatedDeployment, st') \<Rightarrow> (None, st'))
      else (None, st))"

text \<open>Lines 251 to 327: the body of the loop over \<open>ct.Spec.Clusters\<close>.\<close>

definition syncClusterSpec ::
  "Env \<Rightarrow> CapacityTarget \<Rightarrow> int \<Rightarrow> ClusterCapacityTarget \<Rightarrow> sync_state \<Rightarrow> unit run" where
  "syncClusterSpec env ct totalReplicaCount clusterSpec st =
     (case resolveClusterStatus clusterSpec st of
        (clusterStatus, st1) \<Rightarrow>
          (case findTargetDeploymentForClusterSpec env clusterSpec (ct_Namespace ct) (ct_Labels ct)
                  clusterStatus st1 of
             (Inl err, st2) \<Rightarrow> Returns () (recordErrorEvent err st2)
           | (Inr targetDeployment, st2) \<Rightarrow>
               (let percentage = Percent clusterSpec;
                    replicaCount = calculateReplicaCountFromPercentage
                                     (int32_of_int totalReplicaCount) percentage
                in case patchIfNeeded env targetDeployment (target_Name clusterSpec) replicaCount
                          clusterStatus st2 of
                     (Some err, st3) \<Rightarrow> Returns () (recordErrorEvent err st3)
                   | (None, st3) \<Rightarrow>
                       updateClusterStatus env totalReplicaCount targetDeployment replicaCount
                         clusterStatus st3)))"

fun syncClusters ::
  "Env \<Rightarrow> CapacityTarget \<Rightarrow> int \<Rightarrow> ClusterCapacityTarget list \<Rightarrow> sync_state \<Rightarrow> unit run" where
  "syncClusters env ct totalReplicaCount [] st = Returns () st"
| "syncClusters env ct totalReplicaCount (clusterSpec # rest) st =
     (case syncClusterSpec env ct totalReplicaCount clusterSpec st of
        Panics st' \<Rightarrow> Panics st'
      | Returns u st' \<Rightarrow> syncClusters env ct totalReplicaCount rest st')"

datatype outcome = ReturnsNil | ReturnsError error | Crashes

definition initial_state :: "CapacityTarget \<Rightarrow> sync_state" where
  "initial_state ct =
     \<lparr>st_Clusters = Status_Clusters ct, st_local = zero_ClusterCapacityStatus [],
      st_trace = []\<rparr>"

text \<open>Lines 329 to 349: sort, update, events.\<close>

definition persistStatus :: "Env \<Rightarrow> CapacityTarget \<Rightarrow> sync_state \<Rightarrow> sync_state" where
  "persistStatus env ct st =
     (let ct' = ct\<lparr>Status_Clusters := sort_byClusterName (st_Clusters st)\<rparr>;
          st1 = record_action (UpdateCall ct') st;
          st2 = (case Update env (st_trace st) ct' of
                   Some err \<Rightarrow>
                     record_action
                       (EventCall EventTypeWarning ''FailedCapacityTargetChange'' (ErrorEvent err))
                       st1
                 | None \<Rightarrow> st1)
      in record_action
           (EventCall EventTypeNormal ''CapacityTargetChanged''
              (StatusSetEvent (MetaKey_ct ct') (Status_Clusters ct')))
           st2)"

text \<open>
  What a run of the handler leaves behind: what it returned (or that it panicked), the
  calls it made, and the deep copy of the capacity target as the handler last had it
  (there is none when the key does not resolve to a capacity target).
\<close>

record sync_result =
  returned :: outcome
  calls :: "action list"
  copy_after :: "CapacityTarget option"

text \<open>Lines 237 to 349, on the deep copy of the capacity target.\<close>

definition syncCapacityTarget :: "Env \<Rightarrow> CapacityTarget \<Rightarrow> sync_result" where
  "syncCapacityTarget env ct =
     (case getReleaseForCapacityTarget env ct of
        Inl err \<Rightarrow> \<lparr>returned = ReturnsError err, calls = [], copy_after = Some ct\<rparr>
      | Inr release \<Rightarrow>
          (let replicasText = annotation (release_Annotations release)
                                (ReleaseReplicasAnnotation env)
           in case Atoi replicasText of
                None \<Rightarrow>
                  \<lparr>returned = ReturnsError (ReplicasParseError replicasText), calls = [],
                   copy_after = Some ct\<rparr>
              | Some totalReplicaCount \<Rightarrow>
                  (case syncClusters env ct totalReplicaCount (Spec_Clusters ct)
                          (initial_state ct) of
                     Panics st \<Rightarrow>
                       \<lparr>returned = Crashes, calls = st_trace st,
                        copy_after = Some (ct\<lparr>Status_Clusters := st_Clusters st\<rparr>)\<rparr>
                   | Returns u st \<Rightarrow>
                       \<lparr>returned = ReturnsNil, calls = st_trace (persistStatus env ct st),
                        copy_after =
                          Some (ct\<lparr>Status_Clusters := sort_byClusterName (st_Clusters st)\<rparr>)\<rparr>)))"

definition capacityTargetSyncHandler :: "Env \<Rightarrow> string \<Rightarrow> sync_result" where
  "capacityTargetSyncHandler env key =
     (case SplitMetaNamespaceKey key of
        None \<Rightarrow> \<lparr>returned = ReturnsNil, calls = [], copy_after = None\<rparr>
      | Some (namespace, name) \<Rightarrow>
          (case getCapacityTarget env namespace name of
             Inl err \<Rightarrow>
               \<lparr>returned = (if IsNotFound err then ReturnsNil else ReturnsError err),
                calls = [], copy_after = None\<rparr>
           | Inr ct \<Rightarrow> syncCapacityTarget env ct))"

section \<open>Observers and example inputs\<close>

definition isUpdateCall :: "action \<Rightarrow> bool" where
  "isUpdateCall a = (case a of UpdateCall _ \<Rightarrow> True | _ \<Rightarrow> False)"

definition isPatchCall :: "action \<Rightarrow> bool" where
  "isPatchCall a = (case a of PatchCall _ _ _ _ \<Rightarrow> True | _ \<Rightarrow> False)"

text \<open>The status list of the first update call among the calls made.\<close>

fun persisted :: "action list \<Rightarrow> ClusterCapacityStatus list option" where
  "persisted [] = None"
| "persisted (UpdateCall ct # as) = Some (Status_Clusters ct)"
| "persisted (a # as) = persisted as"

text \<open>A pointer into the slice is good when its index is within the slice.\<close>

definition valid_ptr :: "status_ptr \<Rightarrow> sync_state \<Rightarrow> bool" where
  "valid_ptr p st = (case p of InSlice i \<Rightarrow> i < length (st_Clusters st) | Local \<Rightarrow> True)"

definition final_state :: "'a run \<Rightarrow> sync_state" where
  "final_state r = (case r of Returns _ st \<Rightarrow> st | Panics st \<Rightarrow> st)"

text \<open>
  What a stretch of the loop body can do to the state through the pointer \<open>p\<close>: record
  actions that satisfy \<open>P\<close>, and change the status \<open>p\<close> points to without renaming it.
\<close>

inductive steps :: "status_ptr \<Rightarrow> (action \<Rightarrow> bool) \<Rightarrow> sync_state \<Rightarrow> sync_state \<Rightarrow> bool"
  for p :: status_ptr and P :: "action \<Rightarrow> bool"
where
  steps_refl: "steps p P st st"
| steps_record: "steps p P st st' \<Longrightarrow> P a \<Longrightarrow> steps p P st (record_action a st')"
| steps_modify:
    "steps p P st st' \<Longrightarrow> (\<And>s. status_Name (f s) = status_Name s) \<Longrightarrow> steps p P st (modify p f st')"

text \<open>The example inputs: one release \<open>rel\<close> of the given replicas annotation, clusters
  that answer every call, one deployment of three replicas with three healthy pods.\<close>

definition example_deployment :: "int option \<Rightarrow> int \<Rightarrow> Deployment" where
  "example_deployment replicas available =
     \<lparr>deployment_Namespace = ''ns'', deployment_Name = ''app'', Spec_Replicas = replicas,
      Status_AvailableReplicas = available\<rparr>"

definition example_owner :: "string \<Rightarrow> OwnerReference" where
  "example_owner uid = \<lparr>owner_Name = ''rel'', owner_UID = uid\<rparr>"

definition example_ct ::
  "OwnerReference list \<Rightarrow> ClusterCapacityTarget list \<Rightarrow> ClusterCapacityStatus list
     \<Rightarrow> CapacityTarget" where
  "example_ct owners spec status =
     \<lparr>ct_Namespace = ''ns'', ct_Name = ''ct'', ct_Labels = [(''app'', ''x'')],
      OwnerReferences = owners, Spec_Clusters = spec, Status_Clusters = status\<rparr>"

definition spec_cluster :: "string \<Rightarrow> int \<Rightarrow> ClusterCapacityTarget" where
  "spec_cluster name percent = \<lparr>target_Name = name, Percent = percent\<rparr>"

definition example_env :: "CapacityTarget \<Rightarrow> string \<Rightarrow> Env" where
  "example_env ct replicas =
     \<lparr>ReleaseReplicasAnnotation = ''replicas'',
      getCapacityTarget = (\<lambda>namespace name.
         if namespace = ct_Namespace ct \<and> name = ct_Name ct then Inr ct
         else Inl (NotFoundError name)),
      getRelease = (\<lambda>namespace name.
         if name = ''rel''
         then Inr \<lparr>release_UID = ''uid-1'', release_Annotations = [(''replicas'', replicas)]\<rparr>
         else Inl (NotFoundError name)),
      GetInformerFactory = (\<lambda>tr cluster. None),
      ListDeployments = (\<lambda>tr cluster namespace selector. Inr [example_deployment (Some 3) 3]),
      GetClient = (\<lambda>tr cluster. None),
      Patch = (\<lambda>tr cluster namespace name replicas. Inr (example_deployment (Some replicas) 3)),
      getSadPodsForDeploymentOnCluster = (\<lambda>tr d cluster. Inr (3, 0, [])),
      calculatePercentageFromAmount = (\<lambda>total' amount.
         if total' = 0 then 0 else amount * 100 div total'),
      Update = (\<lambda>tr ct. None)\<rparr>"

text \<open>One spec cluster \<open>a\<close> at 30 percent, no status yet.\<close>

definition ct_one :: CapacityTarget where
  "ct_one = example_ct [example_owner ''uid-1''] [spec_cluster ''a'' 30] []"

text \<open>The same cluster named twice in the spec.\<close>

definition ct_twice :: CapacityTarget where
  "ct_twice = example_ct [example_owner ''uid-1''] [spec_cluster ''a'' 30, spec_cluster ''a'' 30] []"

text \<open>The spec names \<open>b\<close> before \<open>a\<close>.\<close>

definition ct_unsorted :: CapacityTarget where
  "ct_unsorted =
     example_ct [example_owner ''uid-1''] [spec_cluster ''b'' 30, spec_cluster ''a'' 30] []"

text \<open>Three spec clusters; the client store cannot reach \<open>b\<close>.\<close>

definition ct_three :: CapacityTarget where
  "ct_three =
     example_ct [example_owner ''uid-1'']
       [spec_cluster ''a'' 30, spec_cluster ''b'' 30, spec_cluster ''c'' 30] []"

definition env_b_down :: Env where
  "env_b_down =
     (example_env ct_three ''10'')
       \<lparr>GetInformerFactory :=
          (\<lambda>tr cluster. if cluster = ''b'' then Some (ExternalError ''unreachable'') else None)\<rparr>"

text \<open>Two deployments match the selector.\<close>

definition env_two_deployments :: Env where
  "env_two_deployments =
     (example_env ct_one ''10'')
       \<lparr>ListDeployments :=
          (\<lambda>tr cluster namespace selector.
             Inr [example_deployment (Some 3) 3, example_deployment (Some 3) 3])\<rparr>"

text \<open>Three replicas in the deployment's spec, two pods listed.\<close>

definition env_two_pods :: Env where
  "env_two_pods =
     (example_env ct_one ''10'')
       \<lparr>getSadPodsForDeploymentOnCluster := (\<lambda>tr d cluster. Inr (2, 0, []))\<rparr>"

text \<open>The cached deployment has no replica count: \<open>Spec.Replicas\<close> is nil.\<close>

definition env_nil_replicas :: Env where
  "env_nil_replicas =
     (example_env ct_one ''10'')
       \<lparr>ListDeployments :=
          (\<lambda>tr cluster namespace selector. Inr [example_deployment None 3])\<rparr>"

text \<open>Cluster \<open>a\<close> at 30 percent, with an entry in the status from an earlier sync.\<close>

definition ct_seen :: CapacityTarget where
  "ct_seen =
     example_ct [example_owner ''uid-1''] [spec_cluster ''a'' 30]
       [zero_ClusterCapacityStatus ''a'']"

text \<open>
  The cached deployment has two replicas in its spec, the patch to three succeeds, and
  two pods are listed.
\<close>

definition env_stale_replicas :: Env where
  "env_stale_replicas =
     (example_env ct_seen ''10'')
       \<lparr>ListDeployments :=
          (\<lambda>tr cluster namespace selector. Inr [example_deployment (Some 2) 2]),
        getSadPodsForDeploymentOnCluster := (\<lambda>tr d cluster. Inr (2, 0, []))\<rparr>"

text \<open>Two deployments match the selector, for the cluster with an entry.\<close>

definition env_two_deployments_seen :: Env where
  "env_two_deployments_seen =
     (example_env ct_seen ''10'')
       \<lparr>ListDeployments :=
          (\<lambda>tr cluster namespace selector.
             Inr [example_deployment (Some 3) 3, example_deployment (Some 3) 3])\<rparr>"

section \<open>Capacity math: results\<close>

lemma calculateReplicaCountFromPercentage_examples:
  "calculateReplicaCountFromPercentage 10 33 = 4"
  "calculateReplicaCountFromPercentage 10 100 = 10"
  "calculateReplicaCountFromPercentage 10 0 = 0"
  by code_simp+

subsection \<open>The rounding error of the replica count\<close>

text \<open>
  One rounding moves a non-negative value by at most its \<open>2 ^ 53\<close>-th part. The product
  \<open>percent / 100 * total\<close> is therefore computed to within a hundredth, and its ceiling is
  the exact ceiling or one more: the function never returns fewer replicas than
  \<open>ceil(percent / 100 * total)\<close>.
\<close>

lemma bitlength_0 [simp]: "bitlength 0 = 0"
  by (simp add: bitlength.simps [of 0])

lemma bitlength_1 [simp]: "bitlength (Suc 0) = Suc 0"
  by (simp add: bitlength.simps [of "Suc 0"])

lemma bitlength_bounds:
  "0 < n \<Longrightarrow> 2 ^ (bitlength n - 1) \<le> n \<and> n < 2 ^ bitlength n"
proof (induction n rule: bitlength.induct)
  case (1 n)
  show ?case
  proof (cases "n div 2 = 0")
    case True
    with "1.prems" have "n = Suc 0" by (simp add: div_eq_0_iff)
    then show ?thesis by simp
  next
    case False
    then have pos: "0 < n div 2" by simp
    from "1.IH" [OF _ pos] "1.prems"
    have ih: "2 ^ (bitlength (n div 2) - 1) \<le> n div 2" "n div 2 < 2 ^ bitlength (n div 2)"
      by simp_all
    have b: "bitlength n = Suc (bitlength (n div 2))"
      using "1.prems" by (simp add: bitlength.simps [of n])
    have bp: "0 < bitlength (n div 2)"
      using pos by (simp add: bitlength.simps [of "n div 2"])
    have "2 ^ (bitlength n - 1) = 2 * 2 ^ (bitlength (n div 2) - 1)"
      using b bp by (cases "bitlength (n div 2)") simp_all
    also have "\<dots> \<le> 2 * (n div 2)" using ih(1) by simp
    also have "\<dots> \<le> n" by simp
    finally have lo: "2 ^ (bitlength n - 1) \<le> n" .
    have "n < 2 * (n div 2) + 2" by presburger
    also have "\<dots> \<le> 2 * 2 ^ bitlength (n div 2)" using ih(2) by simp
    finally have hi: "n < 2 ^ bitlength n" using b by simp
    from lo hi show ?thesis by simp
  qed
qed

lemma pow2_powi: "pow2 e = 2 powi e"
  by (simp add: pow2_def power_int_def field_simps)

lemma pow2_pos: "0 < pow2 e"
  by (simp add: pow2_powi)

lemma exponent2_bounds:
  assumes "0 < x"
  shows "pow2 (exponent2 x) \<le> x \<and> x < 2 * pow2 (exponent2 x)"
proof (cases "1 \<le> x")
  case True
  let ?n = "nat \<lfloor>x\<rfloor>"
  have n: "0 < ?n" using True by simp
  from bitlength_bounds [OF n]
  have lo: "2 ^ (bitlength ?n - 1) \<le> ?n" and hi: "?n < 2 ^ bitlength ?n" by simp_all
  have bp: "0 < bitlength ?n" using n by (simp add: bitlength.simps [of ?n])
  have e: "exponent2 x = int (bitlength ?n - 1)"
    using True bp by (simp add: exponent2_def)
  have p: "pow2 (exponent2 x) = 2 ^ (bitlength ?n - 1)"
    by (simp add: e pow2_def)
  have "(2::rat) ^ (bitlength ?n - 1) \<le> of_nat ?n"
    using lo by (metis of_nat_le_iff of_nat_numeral of_nat_power)
  also have "\<dots> \<le> x" using True by simp
  finally have a: "pow2 (exponent2 x) \<le> x" by (simp add: p)
  have "x < of_int (\<lfloor>x\<rfloor> + 1)" by linarith
  also have "\<dots> = of_nat (?n + 1)" using True by simp
  also have "\<dots> \<le> (2::rat) ^ bitlength ?n"
    using hi by (metis Suc_eq_plus1 Suc_leI of_nat_le_iff of_nat_numeral of_nat_power)
  also have "\<dots> = 2 * 2 ^ (bitlength ?n - 1)"
    using bp by (cases "bitlength ?n") simp_all
  finally have b: "x < 2 * pow2 (exponent2 x)" by (simp add: p)
  from a b show ?thesis by simp
next
  case False
  then have x1: "x < 1" by simp
  let ?c = "nat (\<lceil>1 / x\<rceil> - 1)"
  have inv: "1 < 1 / x" using assms x1 by simp
  then have c2: "2 \<le> \<lceil>1 / x\<rceil>" by linarith
  then have c: "0 < ?c" by simp
  from bitlength_bounds [OF c]
  have lo: "2 ^ (bitlength ?c - 1) \<le> ?c" and hi: "?c < 2 ^ bitlength ?c" by simp_all
  have bp: "0 < bitlength ?c" using c by (simp add: bitlength.simps [of ?c])
  have e: "exponent2 x = - int (bitlength ?c)"
    using False by (simp add: exponent2_def)
  have p: "pow2 (exponent2 x) = 1 / 2 ^ bitlength ?c"
    using bp by (simp add: e pow2_def)
  have "of_nat ?c = (of_int (\<lceil>1 / x\<rceil> - 1) :: rat)"
    using c2 assms by (subst of_nat_nat) simp_all
  then have cc: "of_nat ?c = (of_int \<lceil>1 / x\<rceil> :: rat) - 1"
    by simp
  have "1 / x \<le> of_int \<lceil>1 / x\<rceil>" by linarith
  also have "\<dots> = of_nat (?c + 1)" using cc by simp
  also have "\<dots> \<le> (2::rat) ^ bitlength ?c"
    using hi by (metis Suc_eq_plus1 Suc_leI of_nat_le_iff of_nat_numeral of_nat_power)
  finally have "1 / x \<le> 2 ^ bitlength ?c" .
  then have a: "1 / 2 ^ bitlength ?c \<le> x"
    using assms by (simp add: field_simps)
  have "(2::rat) ^ (bitlength ?c - 1) \<le> of_nat ?c"
    using lo by (metis of_nat_le_iff of_nat_numeral of_nat_power)
  also have "\<dots> < 1 / x" using cc by linarith
  finally have "(2::rat) ^ (bitlength ?c - 1) < 1 / x" .
  then have "x < 1 / 2 ^ (bitlength ?c - 1)"
    using assms by (simp add: field_simps)
  also have "\<dots> = 2 * (1 / 2 ^ bitlength ?c)"
    using bp by (cases "bitlength ?c") simp_all
  finally have b: "x < 2 * (1 / 2 ^ bitlength ?c)" .
  from a b show ?thesis by (simp add: p)
qed

lemma round_half_even_error: "\<bar>of_int (round_half_even y) - y\<bar> \<le> 1 / 2"
proof -
  have "of_int \<lfloor>y\<rfloor> \<le> y" "y < of_int \<lfloor>y\<rfloor> + 1" by linarith+
  then show ?thesis
    by (auto simp: round_half_even_def Let_def)
qed

lemma float64_round_error:
  assumes "0 \<le> x"
  shows "\<bar>float64_round x - x\<bar> \<le> x / 2 ^ 53"
proof (cases "x = 0")
  case True
  then show ?thesis by (simp add: float64_round_def)
next
  case False
  with assms have pos: "0 < x" by simp
  define u where "u = pow2 (exponent2 \<bar>x\<bar> - 52)"
  have u: "u = pow2 (exponent2 x) / 2 ^ 52"
    using pos by (simp add: u_def pow2_powi power_int_diff)
  have upos: "0 < u" by (simp add: u_def pow2_pos)
  have ub: "u \<le> x / 2 ^ 52"
    using exponent2_bounds [OF pos] by (simp add: u divide_right_mono)
  have f: "float64_round x = of_int (round_half_even (x / u)) * u"
    using False by (simp add: float64_round_def u_def Let_def)
  have "of_int (round_half_even (x / u)) * u - x = (of_int (round_half_even (x / u)) - x / u) * u"
    using upos by (simp add: field_simps)
  then have "\<bar>float64_round x - x\<bar> = \<bar>of_int (round_half_even (x / u)) - x / u\<bar> * u"
    using upos by (simp add: f abs_mult abs_of_pos)
  also have "\<dots> \<le> 1 / 2 * u"
    using round_half_even_error [of "x / u"] upos by (intro mult_right_mono) simp_all
  also have "\<dots> \<le> 1 / 2 * (x / 2 ^ 52)"
    using ub by simp
  also have "\<dots> = x / 2 ^ 53" by simp
  finally show ?thesis .
qed

lemma ceiling_close_to_hundredths:
  fixes b :: rat and k :: int
  assumes "\<bar>b - of_int k / 100\<bar> < 1 / 100"
  shows "\<lceil>(of_int k :: rat) / 100\<rceil> \<le> \<lceil>b\<rceil> \<and> \<lceil>b\<rceil> \<le> \<lceil>(of_int k :: rat) / 100\<rceil> + 1"
proof -
  let ?x = "(of_int k :: rat) / 100"
  let ?E = "\<lceil>?x\<rceil>"
  have "b < ?x + 1 / 100" using assms by linarith
  also have "\<dots> \<le> of_int ?E + 1" by linarith
  finally have "b \<le> of_int (?E + 1)" by simp
  then have up: "\<lceil>b\<rceil> \<le> ?E + 1" by (simp only: ceiling_le_iff)
  have "of_int (?E - 1) < ?x" by linarith
  then have "(of_int (100 * (?E - 1)) :: rat) < of_int k" by (simp add: field_simps)
  then have "100 * (?E - 1) < k" by (simp only: of_int_less_iff)
  then have "100 * (?E - 1) + 1 \<le> k" by simp
  then have "(of_int (100 * (?E - 1) + 1) :: rat) \<le> of_int k" by (simp only: of_int_le_iff)
  then have "of_int (?E - 1) + 1 / 100 \<le> ?x" by (simp add: field_simps)
  moreover have "?x - 1 / 100 < b" using assms by linarith
  ultimately have "of_int (?E - 1) < b" by linarith
  then have "?E - 1 < \<lceil>b\<rceil>" by (subst less_ceiling_iff)
  then have lo: "?E \<le> \<lceil>b\<rceil>" by simp
  from lo up show ?thesis by simp
qed

lemma calculateReplicaCount_close:
  assumes t: "0 \<le> t" "t < 2 ^ 31" and p: "0 \<le> p" "p \<le> 100"
  shows "\<bar>float64_mul (float64_div (float64_of_int32 p) 100) (float64_of_int32 t)
          - of_int (p * t) / 100\<bar> < 1 / 100"
proof -
  define q :: rat where "q = of_int p / 100"
  define T :: rat where "T = of_int t"
  define a where "a = float64_round q"
  define b where "b = float64_round (a * T)"
  have q0: "0 \<le> q" and q1: "q \<le> 1" using p by (simp_all add: q_def)
  have T0: "0 \<le> T" and T1: "T < 2 ^ 31" using t by (simp_all add: T_def)
  have ea: "\<bar>a - q\<bar> \<le> q / 2 ^ 53"
    unfolding a_def by (rule float64_round_error [OF q0])
  moreover have "q / 2 ^ 53 \<le> q" using q0 by (simp add: field_simps)
  ultimately have "\<bar>a - q\<bar> \<le> q" by linarith
  then have a0: "0 \<le> a" and a2: "a \<le> 2 * q" by linarith+
  have aT0: "0 \<le> a * T" using a0 T0 by simp
  have eb: "\<bar>b - a * T\<bar> \<le> a * T / 2 ^ 53"
    unfolding b_def by (rule float64_round_error [OF aT0])
  have "a * T \<le> 2 * q * T" using a2 T0 by (simp add: mult_right_mono)
  then have eb': "\<bar>b - a * T\<bar> \<le> 2 * q * T / 2 ^ 53"
    using eb by (simp add: field_simps)
  have "\<bar>a * T - q * T\<bar> = \<bar>a - q\<bar> * T"
    using T0 by (simp add: left_diff_distrib [symmetric] abs_mult)
  also have "\<dots> \<le> q / 2 ^ 53 * T" using ea T0 by (rule mult_right_mono)
  finally have ec: "\<bar>a * T - q * T\<bar> \<le> q * T / 2 ^ 53" by simp
  have "\<bar>b - q * T\<bar> \<le> \<bar>b - a * T\<bar> + \<bar>a * T - q * T\<bar>" by linarith
  also have "\<dots> \<le> 3 * (q * T) / 2 ^ 53" using eb' ec by (simp add: field_simps)
  also have "\<dots> \<le> 3 * T / 2 ^ 53"
    using mult_right_mono [OF q1 T0] by (simp add: field_simps)
  also have "\<dots> < 3 * 2 ^ 31 / 2 ^ 53" using T1 by (simp add: field_simps)
  also have "\<dots> < (1 / 100 :: rat)" by simp
  finally have "\<bar>b - q * T\<bar> < 1 / 100" .
  moreover have "q * T = of_int (p * t) / 100" by (simp add: q_def T_def)
  ultimately show ?thesis
    by (simp add: b_def a_def q_def T_def float64_mul_def float64_div_def float64_of_int32_def)
qed

lemma calculateReplicaCount_bounds:
  assumes t: "0 \<le> t" "t < 2 ^ 31 - 1" and p: "0 \<le> p" "p \<le> 100"
  shows "DesiredReplicas_exact t p \<le> calculateReplicaCountFromPercentage t p"
    and "calculateReplicaCountFromPercentage t p \<le> DesiredReplicas_exact t p + 1"
proof -
  define b where "b = float64_mul (float64_div (float64_of_int32 p) 100) (float64_of_int32 t)"
  have E: "DesiredReplicas_exact t p = \<lceil>(of_int (p * t) :: rat) / 100\<rceil>"
    by (simp add: DesiredReplicas_exact_def)
  have close: "\<bar>b - of_int (p * t) / 100\<bar> < 1 / 100"
    unfolding b_def using t p by (intro calculateReplicaCount_close) simp_all
  from ceiling_close_to_hundredths [OF close]
  have lo: "DesiredReplicas_exact t p \<le> \<lceil>b\<rceil>" and up: "\<lceil>b\<rceil> \<le> DesiredReplicas_exact t p + 1"
    by (simp_all add: E)
  have "0 \<le> p * t" using t p by simp
  then have "(0::rat) \<le> of_int (p * t) / 100" by (simp only: of_int_0_le_iff zero_le_divide_iff) simp
  then have "(0::rat) \<le> of_int \<lceil>(of_int (p * t) :: rat) / 100\<rceil>" by linarith
  then have E0: "0 \<le> DesiredReplicas_exact t p"
    unfolding E by (simp only: of_int_0_le_iff)
  have "p * t \<le> 100 * t" using t p by (simp add: mult_right_mono)
  then have "(of_int (p * t) :: rat) \<le> of_int (100 * t)" by (simp only: of_int_le_iff)
  then have "(of_int (p * t) :: rat) / 100 \<le> of_int t" by simp
  then have Et: "DesiredReplicas_exact t p \<le> t" unfolding E by (simp only: ceiling_le_iff)
  have t': "t < 2147483647" using t by simp
  have range: "- 2147483648 \<le> \<lceil>b\<rceil>" "\<lceil>b\<rceil> < 2147483648"
    using lo up E0 Et t' by linarith+
  have r: "calculateReplicaCountFromPercentage t p = \<lceil>b\<rceil>"
    using range
    by (simp add: calculateReplicaCountFromPercentage_def b_def [symmetric] math_Ceil_def
        int32_of_float64_def Let_def)
  show "DesiredReplicas_exact t p \<le> calculateReplicaCountFromPercentage t p"
    using lo by (simp add: r)
  show "calculateReplicaCountFromPercentage t p \<le> DesiredReplicas_exact t p + 1"
    using up by (simp add: r)
qed

text \<open>
  C1. The claim: for every total \<open>\<ge> 0\<close> and percent in \<open>[0,100]\<close> the replica count is
  \<open>ceil(percent / 100 * total)\<close>. At total 100 and percent 7 the exact value is 7, and the
  function returns 8: the quotient \<open>7 / 100\<close> rounds to a binary64 value above 0.07, and
  its product with 100 rounds to the binary64 value next above 7. (By
  \<open>calculateReplicaCount_bounds\<close> one too many is the only error there is.)
\<close>

theorem calculateReplicaCount_7_percent_of_100:
  "calculateReplicaCountFromPercentage 100 7 = 8 \<and> DesiredReplicas_exact 100 7 = 7"
  by code_simp

section \<open>The loop body, step by step\<close>

lemma status_Name_SetClusterCapacityCondition [simp]:
  "status_Name (SetClusterCapacityCondition s c) = status_Name s"
  by (simp add: SetClusterCapacityCondition_def split: option.splits)

lemma steps_setCondition:
  "steps p P st st' \<Longrightarrow> steps p P st (setCondition p t s r m st')"
  unfolding setCondition_def by (rule steps_modify) simp_all

lemma steps_recordErrorEvent:
  "steps p P st st' \<Longrightarrow> P (EventCall EventTypeWarning ''FailedCapacityChange'' (ErrorEvent err))
     \<Longrightarrow> steps p P st (recordErrorEvent err st')"
  unfolding recordErrorEvent_def by (rule steps_record)

lemma steps_trans: "steps p P st1 st2 \<Longrightarrow> steps p P st0 st1 \<Longrightarrow> steps p P st0 st2"
  by (induction rule: steps.induct) (auto intro: steps.intros)

lemma steps_mono: "steps p P st st' \<Longrightarrow> (\<And>a. P a \<Longrightarrow> Q a) \<Longrightarrow> steps p Q st st'"
  by (induction rule: steps.induct) (auto intro: steps.intros)

lemma st_trace_modify [simp]: "st_trace (modify p f st) = st_trace st"
  by (cases p) (simp_all add: modify_def)

lemma st_trace_record_action [simp]: "st_trace (record_action a st) = st_trace st @ [a]"
  by (simp add: record_action_def)

lemma st_Clusters_record_action [simp]: "st_Clusters (record_action a st) = st_Clusters st"
  by (simp add: record_action_def)

lemma st_local_record_action [simp]: "st_local (record_action a st) = st_local st"
  by (simp add: record_action_def)

lemma st_Clusters_modify_Local [simp]: "st_Clusters (modify Local f st) = st_Clusters st"
  by (simp add: modify_def)

lemma st_Clusters_modify_InSlice [simp]:
  "st_Clusters (modify (InSlice i) f st) = (st_Clusters st)[i := f (st_Clusters st ! i)]"
  by (simp add: modify_def)

lemma steps_trace:
  "steps p P st st' \<Longrightarrow> \<exists>xs. st_trace st' = st_trace st @ xs \<and> list_all P xs"
proof (induction rule: steps.induct)
  case (steps_refl st)
  then show ?case by simp
next
  case (steps_record st st' a)
  then show ?case by auto
next
  case (steps_modify st st' f)
  then show ?case by simp
qed

lemma steps_Local: "steps Local P st st' \<Longrightarrow> st_Clusters st' = st_Clusters st"
  by (induction rule: steps.induct) auto

lemma steps_InSlice:
  "steps (InSlice i) P st st' \<Longrightarrow>
     length (st_Clusters st') = length (st_Clusters st)
     \<and> status_Name (st_Clusters st' ! i) = status_Name (st_Clusters st ! i)
     \<and> (\<forall>j. j \<noteq> i \<longrightarrow> st_Clusters st' ! j = st_Clusters st ! j)"
proof (induction rule: steps.induct)
  case (steps_refl st)
  then show ?case by simp
next
  case (steps_record st st' a)
  then show ?case by simp
next
  case (steps_modify st st' f)
  then show ?case
    by (cases "i < length (st_Clusters st')") (auto simp: list_update_beyond)
qed

lemma findTargetDeploymentForClusterSpec_steps:
  assumes "findTargetDeploymentForClusterSpec env clusterSpec ns sel p st = (r, st')"
  shows "steps p (\<lambda>a. \<not> isUpdateCall a \<and> \<not> isPatchCall a) st st'"
  using assms unfolding findTargetDeploymentForClusterSpec_def Let_def
  by (auto split: option.splits sum.splits if_splits
      intro!: steps_setCondition steps_record steps_refl simp: isUpdateCall_def isPatchCall_def)

lemma patchDeploymentWithReplicaCount_steps:
  assumes "patchDeploymentWithReplicaCount env d n rc p st = (r, st')"
  shows "steps p (\<lambda>a. \<not> isUpdateCall a) st st'"
  using assms unfolding patchDeploymentWithReplicaCount_def Let_def
  by (auto split: option.splits sum.splits if_splits
      intro!: steps_setCondition steps_record steps_refl simp: isUpdateCall_def)

lemma getSadPods_steps:
  "steps p (\<lambda>a. \<not> isUpdateCall a) st (final_state (getSadPods env d p st))"
  unfolding getSadPods_def Let_def final_state_def
  by (auto split: option.splits sum.splits if_splits prod.splits
      intro!: steps_setCondition steps_record steps_refl simp: isUpdateCall_def)

lemma updateClusterStatus_steps:
  "steps p (\<lambda>a. \<not> isUpdateCall a) st (final_state (updateClusterStatus env t d rc p st))"
proof -
  let ?st2 = "modify p (\<lambda>s. s\<lparr>AchievedPercent := calculatePercentageFromAmount env (int32_of_int t) (AvailableReplicas s)\<rparr>)
      (modify p (\<lambda>s. s\<lparr>AvailableReplicas := Status_AvailableReplicas d\<rparr>) st)"
  have a: "steps p (\<lambda>a. \<not> isUpdateCall a) st ?st2"
    by (intro steps_modify steps_refl) simp_all
  have b: "steps p (\<lambda>a. \<not> isUpdateCall a) ?st2 (final_state (getSadPods env d p ?st2))"
    by (rule getSadPods_steps)
  have c: "steps p (\<lambda>a. \<not> isUpdateCall a) st (final_state (getSadPods env d p ?st2))"
    using steps_trans [OF b a] .
  show ?thesis
    unfolding updateClusterStatus_def Let_def
    using c
    by (auto split: run.splits sum.splits simp: final_state_def isUpdateCall_def
        intro!: steps_record steps_setCondition steps_modify)
qed

lemma patchIfNeeded_steps:
  assumes "patchIfNeeded env d n rc p st = (r, st')"
  shows "steps p (\<lambda>a. \<not> isUpdateCall a) st st'"
proof (cases "patchDeploymentWithReplicaCount env d n rc p st")
  case (Pair r' st'')
  from patchDeploymentWithReplicaCount_steps [OF Pair] assms Pair show ?thesis
    by (auto simp: patchIfNeeded_def split: if_splits sum.splits intro: steps_refl)
qed

lemma syncClusterSpec_steps:
  assumes "resolveClusterStatus clusterSpec st = (p, st1)"
  shows "steps p (\<lambda>a. \<not> isUpdateCall a) st1
           (final_state (syncClusterSpec env ct t clusterSpec st))"
proof (cases "findTargetDeploymentForClusterSpec env clusterSpec (ct_Namespace ct) (ct_Labels ct) p st1")
  case find: (Pair r st2)
  have f: "steps p (\<lambda>a. \<not> isUpdateCall a) st1 st2"
    using findTargetDeploymentForClusterSpec_steps [OF find] by (rule steps_mono) simp
  show ?thesis
  proof (cases r)
    case (Inl err)
    then show ?thesis
      using assms find f
      by (auto simp: syncClusterSpec_def final_state_def isUpdateCall_def
          intro!: steps_recordErrorEvent)
  next
    case (Inr d)
    let ?rc = "calculateReplicaCountFromPercentage (int32_of_int t) (Percent clusterSpec)"
    show ?thesis
    proof (cases "patchIfNeeded env d (target_Name clusterSpec) ?rc p st2")
      case patch: (Pair e st3)
      have g: "steps p (\<lambda>a. \<not> isUpdateCall a) st1 st3"
        using steps_trans [OF patchIfNeeded_steps [OF patch] f] .
      have v: "steps p (\<lambda>a. \<not> isUpdateCall a) st1
                 (final_state (updateClusterStatus env t d ?rc p st3))"
        using steps_trans [OF updateClusterStatus_steps g] .
      show ?thesis
        using assms find Inr patch v g
        by (auto simp: syncClusterSpec_def Let_def final_state_def isUpdateCall_def
            split: option.splits intro!: steps_recordErrorEvent)
    qed
  qed
qed

lemma findClusterStatus_None:
  "findClusterStatus name cs i acc = None \<longleftrightarrow> acc = None \<and> name \<notin> status_Name ` set cs"
  by (induction cs arbitrary: i acc) auto

lemma findClusterStatus_Some:
  "findClusterStatus name cs i acc = Some p \<Longrightarrow>
     acc = Some p \<or> (\<exists>j<length cs. p = InSlice (i + j) \<and> status_Name (cs ! j) = name)"
proof (induction cs arbitrary: i acc)
  case Nil
  then show ?case by simp
next
  case (Cons c cs)
  from Cons.prems
  have "findClusterStatus name cs (Suc i) (if status_Name c = name then Some (InSlice i) else acc) = Some p"
    by simp
  from Cons.IH [OF this]
  consider "(if status_Name c = name then Some (InSlice i) else acc) = Some p"
    | j where "j < length cs" "p = InSlice (Suc i + j)" "status_Name (cs ! j) = name"
    by blast
  then show ?case
  proof cases
    case 1
    then show ?thesis by (auto split: if_splits)
  next
    case 2
    then have "Suc j < length (c # cs) \<and> p = InSlice (i + Suc j) \<and> status_Name ((c # cs) ! Suc j) = name"
      by simp
    then show ?thesis by blast
  qed
qed

lemma resolveClusterStatus_trace:
  "resolveClusterStatus c st = (p, st1) \<Longrightarrow> st_trace st1 = st_trace st"
  by (auto simp: resolveClusterStatus_def Let_def split: option.splits)

lemma resolveClusterStatus_cases:
  assumes "resolveClusterStatus c st = (p, st1)"
  shows "(p = Local \<and> target_Name c \<notin> status_Name ` set (st_Clusters st)
           \<and> st_Clusters st1 = st_Clusters st @ [zero_ClusterCapacityStatus (target_Name c)]
           \<and> st_local st1 = zero_ClusterCapacityStatus (target_Name c))
         \<or> (\<exists>i<length (st_Clusters st). p = InSlice i
              \<and> status_Name (st_Clusters st ! i) = target_Name c \<and> st1 = st)"
proof (cases "findClusterStatus (target_Name c) (st_Clusters st) 0 None")
  case None
  then have "target_Name c \<notin> status_Name ` set (st_Clusters st)"
    by (simp add: findClusterStatus_None)
  then show ?thesis
    using assms None by (auto simp: resolveClusterStatus_def Let_def)
next
  case (Some q)
  from findClusterStatus_Some [OF Some] obtain j where
    "j < length (st_Clusters st)" "q = InSlice j" "status_Name (st_Clusters st ! j) = target_Name c"
    by auto
  then show ?thesis
    using assms Some by (auto simp: resolveClusterStatus_def)
qed

lemma resolveClusterStatus_name:
  assumes "resolveClusterStatus c st = (p, st1)"
  shows "status_Name (deref p st1) = target_Name c"
  using resolveClusterStatus_cases [OF assms]
  by (auto simp: deref_def zero_ClusterCapacityStatus_def)

lemma filter_unchanged_but_one:
  assumes "length ys = length xs" "i < length xs" "\<not> P (xs ! i)" "\<not> P (ys ! i)"
    "\<forall>j. j \<noteq> i \<longrightarrow> ys ! j = xs ! j"
  shows "filter P ys = filter P xs"
proof -
  have ys: "ys = xs[i := ys ! i]"
    using assms by (intro nth_equalityI) (auto simp: nth_list_update)
  have "filter P (xs[i := ys ! i]) = filter P (take i xs) @ filter P (drop (Suc i) xs)"
    using assms by (simp add: upd_conv_take_nth_drop)
  also have "\<dots> = filter P (take i xs @ xs ! i # drop (Suc i) xs)"
    using assms by simp
  also have "\<dots> = filter P xs"
    using assms by (simp add: id_take_nth_drop [symmetric])
  finally show ?thesis using ys by simp
qed

lemma syncClusterSpec_other_entries:
  assumes "target_Name c \<noteq> n"
  shows "filter (\<lambda>s. status_Name s = n) (st_Clusters (final_state (syncClusterSpec env ct t c st)))
         = filter (\<lambda>s. status_Name s = n) (st_Clusters st)"
proof (cases "resolveClusterStatus c st")
  case (Pair p st1)
  note st = syncClusterSpec_steps [OF Pair, of env ct t]
  from resolveClusterStatus_cases [OF Pair] show ?thesis
  proof (elim disjE conjE exE)
    assume "p = Local" "st_Clusters st1 = st_Clusters st @ [zero_ClusterCapacityStatus (target_Name c)]"
    then show ?thesis
      using st steps_Local assms by (simp add: zero_ClusterCapacityStatus_def)
  next
    fix i assume i: "i < length (st_Clusters st)" "p = InSlice i"
      "status_Name (st_Clusters st ! i) = target_Name c" "st1 = st"
    from steps_InSlice [OF st [unfolded i(2)]] i assms
    show ?thesis
      by (intro filter_unchanged_but_one [where i = i]) auto
  qed
qed

lemma syncClusterSpec_new_entry:
  assumes "target_Name c \<notin> status_Name ` set (st_Clusters st)"
  shows "st_Clusters (final_state (syncClusterSpec env ct t c st))
         = st_Clusters st @ [zero_ClusterCapacityStatus (target_Name c)]"
proof (cases "resolveClusterStatus c st")
  case (Pair p st1)
  note st = syncClusterSpec_steps [OF Pair, of env ct t]
  have "\<not> (\<exists>i<length (st_Clusters st). status_Name (st_Clusters st ! i) = target_Name c)"
    using assms by (metis image_eqI nth_mem)
  with resolveClusterStatus_cases [OF Pair]
  have "p = Local" "st_Clusters st1 = st_Clusters st @ [zero_ClusterCapacityStatus (target_Name c)]"
    by auto
  then show ?thesis using st steps_Local by simp
qed

lemma syncClusters_other_entries:
  "n \<notin> target_Name ` set cs \<Longrightarrow>
   filter (\<lambda>s. status_Name s = n) (st_Clusters (final_state (syncClusters env ct t cs st)))
   = filter (\<lambda>s. status_Name s = n) (st_Clusters st)"
proof (induction cs arbitrary: st)
  case Nil
  then show ?case by (simp add: final_state_def)
next
  case (Cons c cs)
  then have c: "target_Name c \<noteq> n" and cs: "n \<notin> target_Name ` set cs" by auto
  show ?case
  proof (cases "syncClusterSpec env ct t c st")
    case (Returns u st')
    then show ?thesis
      using Cons.IH [OF cs, of st'] syncClusterSpec_other_entries [OF c, of env ct t st]
      by (simp add: final_state_def)
  next
    case (Panics st')
    then show ?thesis
      using syncClusterSpec_other_entries [OF c, of env ct t st]
      by (simp add: final_state_def)
  qed
qed

lemma syncClusters_single_entry:
  "count_list (map target_Name cs) n = 1 \<Longrightarrow> n \<notin> status_Name ` set (st_Clusters st) \<Longrightarrow>
   syncClusters env ct t cs st = Returns u st' \<Longrightarrow>
   filter (\<lambda>s. status_Name s = n) (st_Clusters st') = [zero_ClusterCapacityStatus n]"
proof (induction cs arbitrary: st)
  case Nil
  then show ?case by simp
next
  case (Cons c cs)
  from Cons.prems(3) obtain v st1 where b: "syncClusterSpec env ct t c st = Returns v st1"
    and r: "syncClusters env ct t cs st1 = Returns u st'"
    by (auto split: run.splits)
  show ?case
  proof (cases "target_Name c = n")
    case True
    with Cons.prems(1) have "count_list (map target_Name cs) n = 0" by simp
    then have notin: "n \<notin> target_Name ` set cs"
      by (simp add: count_list_0_iff)
    have "st_Clusters st1 = st_Clusters st @ [zero_ClusterCapacityStatus n]"
      using syncClusterSpec_new_entry [of c st env ct t] Cons.prems(2) True b
      by (simp add: final_state_def)
    then have "filter (\<lambda>s. status_Name s = n) (st_Clusters st1) = [zero_ClusterCapacityStatus n]"
      using Cons.prems(2) by (auto simp: zero_ClusterCapacityStatus_def filter_empty_conv)
    then show ?thesis
      using syncClusters_other_entries [OF notin, of env ct t st1] r
      by (simp add: final_state_def)
  next
    case False
    with Cons.prems(1) have cnt: "count_list (map target_Name cs) n = 1" by simp
    have "filter (\<lambda>s. status_Name s = n) (st_Clusters st1) = filter (\<lambda>s. status_Name s = n) (st_Clusters st)"
      using syncClusterSpec_other_entries [OF False, of env ct t st] b by (simp add: final_state_def)
    moreover have "filter (\<lambda>s. status_Name s = n) (st_Clusters st) = []"
      using Cons.prems(2) by (auto simp: filter_empty_conv)
    ultimately have "filter (\<lambda>s. status_Name s = n) (st_Clusters st1) = []"
      by simp
    then have "n \<notin> status_Name ` set (st_Clusters st1)"
      unfolding filter_empty_conv by auto
    from Cons.IH [OF cnt this r] show ?thesis .
  qed
qed

lemma syncClusters_trace:
  "\<exists>xs. st_trace (final_state (syncClusters env ct t cs st)) = st_trace st @ xs
        \<and> list_all (\<lambda>a. \<not> isUpdateCall a) xs"
proof (induction cs arbitrary: st)
  case Nil
  then show ?case by (simp add: final_state_def)
next
  case (Cons c cs)
  obtain p st1 where res: "resolveClusterStatus c st = (p, st1)" by (cases "resolveClusterStatus c st")
  from steps_trace [OF syncClusterSpec_steps [OF res, of env ct t]] resolveClusterStatus_trace [OF res]
  obtain xs where xs: "st_trace (final_state (syncClusterSpec env ct t c st)) = st_trace st @ xs"
    "list_all (\<lambda>a. \<not> isUpdateCall a) xs" by auto
  show ?case
  proof (cases "syncClusterSpec env ct t c st")
    case (Returns u st')
    from Cons.IH [of st'] obtain ys where
      "st_trace (final_state (syncClusters env ct t cs st')) = st_trace st' @ ys"
      "list_all (\<lambda>a. \<not> isUpdateCall a) ys" by auto
    then show ?thesis using xs Returns by (auto simp: final_state_def)
  next
    case (Panics st')
    then show ?thesis using xs by (auto simp: final_state_def)
  qed
qed

lemma capacityTargetSyncHandler_found:
  "SplitMetaNamespaceKey key = Some (namespace, name) \<Longrightarrow>
   getCapacityTarget env namespace name = Inr ct \<Longrightarrow>
   capacityTargetSyncHandler env key = syncCapacityTarget env ct"
  by (simp add: capacityTargetSyncHandler_def)

lemma capacityTargetSyncHandler_calls:
  "calls (capacityTargetSyncHandler env key) \<noteq> [] \<Longrightarrow>
   \<exists>ct. capacityTargetSyncHandler env key = syncCapacityTarget env ct"
  by (auto simp: capacityTargetSyncHandler_def split: option.splits sum.splits)

lemma persistStatus_trace:
  "\<exists>ys. st_trace (persistStatus env ct st)
          = st_trace st @ UpdateCall (ct\<lparr>Status_Clusters := sort_byClusterName (st_Clusters st)\<rparr>) # ys
        \<and> list_all (\<lambda>a. \<not> isUpdateCall a) ys
        \<and> last (st_trace (persistStatus env ct st))
          = EventCall EventTypeNormal ''CapacityTargetChanged''
              (StatusSetEvent (MetaKey_ct ct) (sort_byClusterName (st_Clusters st)))"
  by (auto simp: persistStatus_def Let_def isUpdateCall_def MetaKey_ct_def split: option.splits)

lemma syncClusters_from_initial:
  "\<exists>xs. st_trace (final_state (syncClusters env ct t cs (initial_state ct))) = xs
        \<and> list_all (\<lambda>a. \<not> isUpdateCall a) xs"
  using syncClusters_trace [of env ct t cs "initial_state ct"]
  by (simp add: initial_state_def)

lemma update_call_in_sync:
  assumes "UpdateCall ct' \<in> set (calls (syncCapacityTarget env ct))"
  shows "\<exists>release t u st.
           getReleaseForCapacityTarget env ct = Inr release
         \<and> Atoi (annotation (release_Annotations release) (ReleaseReplicasAnnotation env)) = Some t
         \<and> syncClusters env ct t (Spec_Clusters ct) (initial_state ct) = Returns u st
         \<and> ct' = ct\<lparr>Status_Clusters := sort_byClusterName (st_Clusters st)\<rparr>"
proof (cases "getReleaseForCapacityTarget env ct")
  case (Inl err)
  then show ?thesis using assms by (simp add: syncCapacityTarget_def)
next
  case (Inr release)
  show ?thesis
  proof (cases "Atoi (annotation (release_Annotations release) (ReleaseReplicasAnnotation env))")
    case None
    then show ?thesis using assms Inr by (simp add: syncCapacityTarget_def)
  next
    case (Some t)
    from syncClusters_from_initial [of env ct t "Spec_Clusters ct"]
    have loop: "list_all (\<lambda>a. \<not> isUpdateCall a)
                  (st_trace (final_state (syncClusters env ct t (Spec_Clusters ct) (initial_state ct))))"
      by simp
    show ?thesis
    proof (cases "syncClusters env ct t (Spec_Clusters ct) (initial_state ct)")
      case (Panics st)
      with loop have "list_all (\<lambda>a. \<not> isUpdateCall a) (st_trace st)"
        by (simp add: final_state_def)
      then have "UpdateCall ct' \<notin> set (st_trace st)"
        by (auto simp: list_all_iff isUpdateCall_def)
      then show ?thesis using assms Inr Some Panics by (simp add: syncCapacityTarget_def)
    next
      case (Returns u st)
      with loop have no: "list_all (\<lambda>a. \<not> isUpdateCall a) (st_trace st)"
        by (simp add: final_state_def)
      from persistStatus_trace [of env ct st] obtain ys where
        ys: "st_trace (persistStatus env ct st)
             = st_trace st @ UpdateCall (ct\<lparr>Status_Clusters := sort_byClusterName (st_Clusters st)\<rparr>) # ys"
            "list_all (\<lambda>a. \<not> isUpdateCall a) ys"
        by blast
      have "UpdateCall ct' \<in> set (st_trace (persistStatus env ct st))"
        using assms Inr Some Returns by (simp add: syncCapacityTarget_def)
      with ys no have "ct' = ct\<lparr>Status_Clusters := sort_byClusterName (st_Clusters st)\<rparr>"
        by (auto simp: list_all_iff isUpdateCall_def)
      then show ?thesis using Inr Some Returns by simp
    qed
  qed
qed

lemma update_call_in_handler:
  assumes "UpdateCall ct' \<in> set (calls (capacityTargetSyncHandler env key))"
  shows "\<exists>ct release t u st.
           capacityTargetSyncHandler env key = syncCapacityTarget env ct
         \<and> getReleaseForCapacityTarget env ct = Inr release
         \<and> Atoi (annotation (release_Annotations release) (ReleaseReplicasAnnotation env)) = Some t
         \<and> syncClusters env ct t (Spec_Clusters ct) (initial_state ct) = Returns u st
         \<and> ct' = ct\<lparr>Status_Clusters := sort_byClusterName (st_Clusters st)\<rparr>"
proof -
  from assms have "calls (capacityTargetSyncHandler env key) \<noteq> []" by auto
  from capacityTargetSyncHandler_calls [OF this] obtain ct where
    ct: "capacityTargetSyncHandler env key = syncCapacityTarget env ct" by blast
  with assms update_call_in_sync [of ct' env ct] show ?thesis by auto
qed

section \<open>Conditions and pointers\<close>

lemma find_append_new:
  "find P xs = None \<Longrightarrow> P c \<Longrightarrow> find P (xs @ [c]) = Some c"
  by (induction xs) (auto split: if_splits)

lemma GetClusterCapacityCondition_Set_same:
  "GetClusterCapacityCondition (SetClusterCapacityCondition s c) (cond_Type c) = Some c"
proof (cases "GetClusterCapacityCondition s (cond_Type c)")
  case None
  then show ?thesis
    by (simp add: SetClusterCapacityCondition_def GetClusterCapacityCondition_def find_append_new)
next
  case (Some cur)
  then have t: "cond_Type cur = cond_Type c"
    by (auto simp: GetClusterCapacityCondition_def find_Some_iff)
  have "find (\<lambda>x. cond_Type x = cond_Type c)
          (filter (\<lambda>x. cond_Type x \<noteq> cond_Type c) (Conditions s)) = None"
    by (simp add: find_None_iff)
  then have new: "find (\<lambda>x. cond_Type x = cond_Type c)
          (filter (\<lambda>x. cond_Type x \<noteq> cond_Type c) (Conditions s) @ [c]) = Some c"
    by (rule find_append_new) simp
  show ?thesis
  proof (cases "cond_Status cur = cond_Status c \<and> cond_Reason cur = cond_Reason c
                \<and> cond_Message cur = cond_Message c")
    case True
    with t have "cur = c" by simp
    with Some True show ?thesis by (simp add: SetClusterCapacityCondition_def)
  next
    case False
    with Some new show ?thesis
      by (auto simp: SetClusterCapacityCondition_def GetClusterCapacityCondition_def)
  qed
qed

lemma find_append_other: "\<not> P c \<Longrightarrow> find P (xs @ [c]) = find P xs"
  by (induction xs) auto

lemma find_filter_append_other:
  "\<not> P c \<Longrightarrow> (\<And>x. P x \<Longrightarrow> Q x) \<Longrightarrow> find P (filter Q xs @ [c]) = find P xs"
  by (induction xs) auto

lemma GetClusterCapacityCondition_Set_other:
  assumes "t \<noteq> cond_Type c"
  shows "GetClusterCapacityCondition (SetClusterCapacityCondition s c) t
         = GetClusterCapacityCondition s t"
proof -
  have a: "find (\<lambda>x. cond_Type x = t) (Conditions s @ [c]) = find (\<lambda>x. cond_Type x = t) (Conditions s)"
    using assms by (intro find_append_other) simp
  have b: "find (\<lambda>x. cond_Type x = t) (filter (\<lambda>x. cond_Type x \<noteq> cond_Type c) (Conditions s) @ [c])
           = find (\<lambda>x. cond_Type x = t) (Conditions s)"
    using assms by (intro find_filter_append_other) auto
  show ?thesis
    using a b
    by (simp add: SetClusterCapacityCondition_def GetClusterCapacityCondition_def split: option.splits)
qed

lemma SadPods_SetClusterCapacityCondition [simp]:
  "SadPods (SetClusterCapacityCondition s c) = SadPods s"
  by (simp add: SetClusterCapacityCondition_def split: option.splits)

lemma valid_ptr_record_action [simp]: "valid_ptr p (record_action a st) = valid_ptr p st"
  by (simp add: valid_ptr_def split: status_ptr.splits)

lemma valid_ptr_modify [simp]: "valid_ptr p (modify q f st) = valid_ptr p st"
  by (cases q) (simp_all add: valid_ptr_def modify_def split: status_ptr.splits)

lemma valid_ptr_setCondition [simp]: "valid_ptr p (setCondition q t s r m st) = valid_ptr p st"
  by (simp add: setCondition_def)

lemma deref_record_action [simp]: "deref p (record_action a st) = deref p st"
  by (simp add: deref_def record_action_def split: status_ptr.splits)

lemma deref_modify: "valid_ptr p st \<Longrightarrow> deref p (modify p f st) = f (deref p st)"
  by (cases p) (simp_all add: deref_def modify_def valid_ptr_def)

lemma deref_setCondition:
  "valid_ptr p st \<Longrightarrow>
   deref p (setCondition p t s r m st)
   = SetClusterCapacityCondition (deref p st) (NewClusterCapacityCondition t s r m)"
  by (simp add: setCondition_def deref_modify)

lemma st_trace_setCondition [simp]: "st_trace (setCondition p t s r m st) = st_trace st"
  by (simp add: setCondition_def)

lemma st_trace_recordErrorEvent [simp]:
  "st_trace (recordErrorEvent err st)
   = st_trace st @ [EventCall EventTypeWarning ''FailedCapacityChange'' (ErrorEvent err)]"
  by (simp add: recordErrorEvent_def)

lemma deref_recordErrorEvent [simp]: "deref p (recordErrorEvent err st) = deref p st"
  by (simp add: recordErrorEvent_def)

lemma resolveClusterStatus_valid:
  assumes "resolveClusterStatus c st = (p, st1)"
  shows "valid_ptr p st1"
  using resolveClusterStatus_cases [OF assms] by (auto simp: valid_ptr_def)

lemma cond_Type_New [simp]: "cond_Type (NewClusterCapacityCondition t s r m) = t"
  by (simp add: NewClusterCapacityCondition_def)

subsection \<open>What the successful stages leave unchanged\<close>

lemma findTargetDeploymentForClusterSpec_found:
  assumes "findTargetDeploymentForClusterSpec env clusterSpec ns sel p st = (Inr d, st')"
  shows "st' = record_action (ListDeploymentsCall (target_Name clusterSpec) ns sel)
                 (record_action (GetInformerFactoryCall (target_Name clusterSpec)) st)"
  using assms
  by (auto simp: findTargetDeploymentForClusterSpec_def Let_def
      split: option.splits sum.splits if_splits)

lemma patchIfNeeded_ok:
  assumes "patchIfNeeded env d n rc p st = (None, st')"
  shows "deref p st' = deref p st \<and> valid_ptr p st' = valid_ptr p st
         \<and> (\<exists>xs. st_trace st' = st_trace st @ xs)"
  using assms
  by (auto simp: patchIfNeeded_def patchDeploymentWithReplicaCount_def Let_def
      split: option.splits sum.splits if_splits prod.splits)

lemma syncClusters_append:
  "syncClusters env ct t (xs @ ys) st
   = (case syncClusters env ct t xs st of
        Panics st' \<Rightarrow> Panics st'
      | Returns u st' \<Rightarrow> syncClusters env ct t ys st')"
  by (induction xs arbitrary: st) (auto split: run.splits)


lemma nth_update_same_name:
  "status_Name (f (xs ! i)) = status_Name (xs ! i) \<Longrightarrow>
   status_Name (xs[i := f (xs ! i)] ! i) = status_Name (xs ! i)"
  by (cases "i < length xs") (simp_all add: list_update_beyond)

lemma steps_deref_name:
  "steps p P st st' \<Longrightarrow> status_Name (deref p st') = status_Name (deref p st)"
proof (induction rule: steps.induct)
  case (steps_refl st)
  then show ?case by simp
next
  case (steps_record st st' a)
  then show ?case by simp
next
  case (steps_modify st st' f)
  then show ?case
    by (auto simp: deref_def modify_def nth_update_same_name split: status_ptr.splits)
qed

lemma steps_valid_ptr: "steps p P st st' \<Longrightarrow> valid_ptr q st' = valid_ptr q st"
  by (induction rule: steps.induct) auto

lemma getSadPods_nil_replicas:
  assumes "Spec_Replicas d = None"
    and "getSadPodsForDeploymentOnCluster env (st_trace st) d (status_Name (deref p st)) = Inr pods"
  shows "getSadPods env d p st = Panics (record_action (ListPodsCall d (status_Name (deref p st))) st)"
  using assms by (cases pods) (simp add: getSadPods_def Let_def)

lemma updateClusterStatus_name:
  assumes "valid_ptr p st"
  shows "status_Name (deref p
           (modify p (\<lambda>s. s\<lparr>AchievedPercent := g s\<rparr>)
              (modify p (\<lambda>s. s\<lparr>AvailableReplicas := a\<rparr>) st)))
         = status_Name (deref p st)"
  using assms by (simp add: deref_modify)

lemma key_ns_ct: "SplitMetaNamespaceKey ''ns/ct'' = Some (''ns'', ''ct'')"
  by code_simp


section \<open>Supporting facts\<close>

lemma calculateReplicaCountFromPercentage_zero_total:
  "calculateReplicaCountFromPercentage 0 percentage = 0"
  by (simp add: calculateReplicaCountFromPercentage_def float64_mul_def float64_of_int32_def
      float64_round_def math_Ceil_def int32_of_float64_def)

lemma filter_isUpdateCall_none:
  "list_all (\<lambda>a. \<not> isUpdateCall a) xs \<Longrightarrow> filter isUpdateCall xs = []"
  by (simp add: list_all_iff filter_empty_conv)

lemma sync_without_crash:
  assumes rel: "getReleaseForCapacityTarget env ct = Inr release"
    and atoi: "Atoi (annotation (release_Annotations release) (ReleaseReplicasAnnotation env))
               = Some t"
    and loop: "syncClusters env ct t (Spec_Clusters ct) (initial_state ct) = Returns u st"
  shows "returned (syncCapacityTarget env ct) = ReturnsNil"
    and "filter isUpdateCall (calls (syncCapacityTarget env ct))
         = [UpdateCall (ct\<lparr>Status_Clusters := sort_byClusterName (st_Clusters st)\<rparr>)]"
    and "last (calls (syncCapacityTarget env ct))
         = EventCall EventTypeNormal ''CapacityTargetChanged''
             (StatusSetEvent (MetaKey_ct ct) (sort_byClusterName (st_Clusters st)))"
proof -
  have c: "calls (syncCapacityTarget env ct) = st_trace (persistStatus env ct st)"
    and r: "returned (syncCapacityTarget env ct) = ReturnsNil"
    using rel atoi loop by (simp_all add: syncCapacityTarget_def)
  from syncClusters_from_initial [of env ct t "Spec_Clusters ct"] loop
  have no: "list_all (\<lambda>a. \<not> isUpdateCall a) (st_trace st)"
    by (simp add: final_state_def)
  from persistStatus_trace [of env ct st] obtain ys where
    ys: "st_trace (persistStatus env ct st)
         = st_trace st @ UpdateCall (ct\<lparr>Status_Clusters := sort_byClusterName (st_Clusters st)\<rparr>) # ys"
      "list_all (\<lambda>a. \<not> isUpdateCall a) ys"
      "last (st_trace (persistStatus env ct st))
       = EventCall EventTypeNormal ''CapacityTargetChanged''
           (StatusSetEvent (MetaKey_ct ct) (sort_byClusterName (st_Clusters st)))"
    by blast
  show "returned (syncCapacityTarget env ct) = ReturnsNil" by (rule r)
  show "filter isUpdateCall (calls (syncCapacityTarget env ct))
        = [UpdateCall (ct\<lparr>Status_Clusters := sort_byClusterName (st_Clusters st)\<rparr>)]"
    using ys(1,2) no
    by (simp add: c filter_isUpdateCall_none isUpdateCall_def)
  show "last (calls (syncCapacityTarget env ct))
        = EventCall EventTypeNormal ''CapacityTargetChanged''
            (StatusSetEvent (MetaKey_ct ct) (sort_byClusterName (st_Clusters st)))"
    using ys(3) by (simp add: c)
qed

lemma update_failure_is_a_warning:
  assumes "Update env (st_trace st)
             (ct\<lparr>Status_Clusters := sort_byClusterName (st_Clusters st)\<rparr>) = Some err"
  shows "EventCall EventTypeWarning ''FailedCapacityTargetChange'' (ErrorEvent err)
         \<in> set (st_trace (persistStatus env ct st))"
  using assms by (simp add: persistStatus_def Let_def)

lemma steps_names:
  assumes "steps p P st st'"
  shows "map status_Name (st_Clusters st') = map status_Name (st_Clusters st)"
proof (cases p)
  case Local
  with assms steps_Local show ?thesis by simp
next
  case (InSlice i)
  from steps_InSlice [OF assms [unfolded InSlice]]
  have l: "length (st_Clusters st') = length (st_Clusters st)"
    and n: "status_Name (st_Clusters st' ! i) = status_Name (st_Clusters st ! i)"
    and o: "\<forall>j. j \<noteq> i \<longrightarrow> st_Clusters st' ! j = st_Clusters st ! j"
    by simp_all
  show ?thesis
  proof (rule nth_equalityI)
    show "length (map status_Name (st_Clusters st')) = length (map status_Name (st_Clusters st))"
      using l by simp
  next
    fix j assume "j < length (map status_Name (st_Clusters st'))"
    then show "map status_Name (st_Clusters st') ! j = map status_Name (st_Clusters st) ! j"
      using l n o by (cases "j = i") simp_all
  qed
qed

lemma syncClusterSpec_names:
  "status_Name ` set (st_Clusters (final_state (syncClusterSpec env ct t c st)))
   = insert (target_Name c) (status_Name ` set (st_Clusters st))"
proof (cases "resolveClusterStatus c st")
  case (Pair p st1)
  have "map status_Name (st_Clusters (final_state (syncClusterSpec env ct t c st)))
        = map status_Name (st_Clusters st1)"
    by (rule steps_names [OF syncClusterSpec_steps [OF Pair]])
  then have "set (map status_Name (st_Clusters (final_state (syncClusterSpec env ct t c st))))
             = set (map status_Name (st_Clusters st1))"
    by simp
  moreover have "status_Name ` set (st_Clusters st1)
                 = insert (target_Name c) (status_Name ` set (st_Clusters st))"
  proof -
    from resolveClusterStatus_cases [OF Pair]
    consider "st_Clusters st1 = st_Clusters st @ [zero_ClusterCapacityStatus (target_Name c)]"
      | i where "i < length (st_Clusters st)" "status_Name (st_Clusters st ! i) = target_Name c"
          "st1 = st"
      by blast
    then show ?thesis
    proof cases
      case 1
      then show ?thesis by (simp add: zero_ClusterCapacityStatus_def)
    next
      case 2
      from 2(1) have "st_Clusters st ! i \<in> set (st_Clusters st)" by (rule nth_mem)
      then have "status_Name (st_Clusters st ! i) \<in> status_Name ` set (st_Clusters st)"
        by (rule imageI)
      with 2 show ?thesis by auto
    qed
  qed
  ultimately show ?thesis by simp
qed

lemma syncClusters_names:
  "syncClusters env ct t cs st = Returns u st' \<Longrightarrow>
   status_Name ` set (st_Clusters st') = target_Name ` set cs \<union> status_Name ` set (st_Clusters st)"
proof (induction cs arbitrary: st)
  case Nil
  then show ?case by simp
next
  case (Cons c cs)
  from Cons.prems obtain v st1 where b: "syncClusterSpec env ct t c st = Returns v st1"
    and r: "syncClusters env ct t cs st1 = Returns u st'"
    by (auto split: run.splits)
  from syncClusterSpec_names [of env ct t c st] b
  have "status_Name ` set (st_Clusters st1) = insert (target_Name c) (status_Name ` set (st_Clusters st))"
    by (simp add: final_state_def)
  with Cons.IH [OF r] show ?case by auto
qed

lemma every_spec_cluster_is_persisted:
  assumes "UpdateCall ct' \<in> set (calls (syncCapacityTarget env ct))"
  shows "status_Name ` set (Status_Clusters ct')
         = target_Name ` set (Spec_Clusters ct) \<union> status_Name ` set (Status_Clusters ct)"
proof -
  from update_call_in_sync [OF assms]
  obtain t u and st :: sync_state where
    loop: "syncClusters env ct t (Spec_Clusters ct) (initial_state ct) = Returns u st"
    and ct': "ct' = ct\<lparr>Status_Clusters := sort_byClusterName (st_Clusters st)\<rparr>"
    by auto
  from syncClusters_names [OF loop] show ?thesis
    by (simp add: ct' sort_byClusterName_def initial_state_def)
qed

lemma cluster_error_does_not_stop_the_loop:
  assumes "resolveClusterStatus clusterSpec st = (p, st1)"
    and "findTargetDeploymentForClusterSpec env clusterSpec (ct_Namespace ct) (ct_Labels ct) p st1
         = (Inl err, st2)"
  shows "syncClusters env ct t (clusterSpec # rest) st
         = syncClusters env ct t rest (recordErrorEvent err st2)"
  using assms by (simp add: syncClusterSpec_def)

section \<open>The claims about the sync handler\<close>

text \<open>
  C2. A capacity target whose owner references are not exactly one, or whose one owner's
  UID is not the UID of the live release of that name, makes the sync return an error
  with no call made at all (no cluster looked up, no patch, no event, no update) and with
  the status of the copy as it was: no condition was set.
\<close>

theorem owner_validation_failure_has_no_effect:
  assumes "SplitMetaNamespaceKey key = Some (namespace, name)"
    and "getCapacityTarget env namespace name = Inr ct"
    and "length (OwnerReferences ct) \<noteq> 1
         \<or> (\<exists>release. getRelease env (ct_Namespace ct) (owner_Name (OwnerReferences ct ! 0)) = Inr release
               \<and> release_UID release \<noteq> owner_UID (OwnerReferences ct ! 0))"
  shows "\<exists>err. capacityTargetSyncHandler env key
                = \<lparr>returned = ReturnsError err, calls = [], copy_after = Some ct\<rparr>"
  using assms
  by (auto simp: capacityTargetSyncHandler_def syncCapacityTarget_def
      getReleaseForCapacityTarget_def Let_def split: sum.splits)

text \<open>The witness: no owner reference at all, and one owner reference of a stale UID.\<close>

theorem owner_validation_failure_witness:
  "(\<exists>err. capacityTargetSyncHandler
            (example_env (example_ct [] [spec_cluster ''a'' 30] []) ''10'') ''ns/ct''
          = \<lparr>returned = ReturnsError err, calls = [],
             copy_after = Some (example_ct [] [spec_cluster ''a'' 30] [])\<rparr>)
   \<and> (\<exists>err. capacityTargetSyncHandler
            (example_env (example_ct [example_owner ''uid-0''] [spec_cluster ''a'' 30] []) ''10'')
            ''ns/ct''
          = \<lparr>returned = ReturnsError err, calls = [],
             copy_after = Some (example_ct [example_owner ''uid-0''] [spec_cluster ''a'' 30] [])\<rparr>)"
proof -
  let ?ct0 = "example_ct [] [spec_cluster ''a'' 30] []"
  let ?ct1 = "example_ct [example_owner ''uid-0''] [spec_cluster ''a'' 30] []"
  have k: "SplitMetaNamespaceKey ''ns/ct'' = Some (''ns'', ''ct'')"
    by code_simp
  have g0: "getCapacityTarget (example_env ?ct0 ''10'') ''ns'' ''ct'' = Inr ?ct0"
    by (simp add: example_env_def example_ct_def)
  have g1: "getCapacityTarget (example_env ?ct1 ''10'') ''ns'' ''ct'' = Inr ?ct1"
    by (simp add: example_env_def example_ct_def)
  have h0: "length (OwnerReferences ?ct0) \<noteq> 1
            \<or> (\<exists>release. getRelease (example_env ?ct0 ''10'') (ct_Namespace ?ct0)
                   (owner_Name (OwnerReferences ?ct0 ! 0)) = Inr release
                 \<and> release_UID release \<noteq> owner_UID (OwnerReferences ?ct0 ! 0))"
    by (simp add: example_ct_def)
  have h1: "length (OwnerReferences ?ct1) \<noteq> 1
            \<or> (\<exists>release. getRelease (example_env ?ct1 ''10'') (ct_Namespace ?ct1)
                   (owner_Name (OwnerReferences ?ct1 ! 0)) = Inr release
                 \<and> release_UID release \<noteq> owner_UID (OwnerReferences ?ct1 ! 0))"
    by (simp add: example_ct_def example_env_def example_owner_def)
  show ?thesis
    using owner_validation_failure_has_no_effect [OF k g0 h0]
      owner_validation_failure_has_no_effect [OF k g1 h1]
    by blast
qed

text \<open>
  C3. Whatever the order of the clusters in the spec and of the entries in the prior
  status, every capacity target that a sync passes to the update call has its
  \<open>Status.Clusters\<close> sorted by cluster name.
\<close>

theorem persisted_status_sorted_by_name:
  assumes "UpdateCall ct' \<in> set (calls (capacityTargetSyncHandler env key))"
  shows "sorted (map status_Name (Status_Clusters ct'))"
proof -
  from update_call_in_handler [OF assms]
  obtain ct :: CapacityTarget and st :: sync_state where
    "ct' = ct\<lparr>Status_Clusters := sort_byClusterName (st_Clusters st)\<rparr>" by blast
  then show ?thesis by (simp add: sort_byClusterName_def)
qed

text \<open>The witness: the spec names \<open>b\<close> before \<open>a\<close>, the update sees \<open>a\<close> before \<open>b\<close>.\<close>

theorem persisted_status_sorted_witness:
  "UpdateCall (example_ct [example_owner ''uid-1''] [spec_cluster ''b'' 30, spec_cluster ''a'' 30]
                 [zero_ClusterCapacityStatus ''a'', zero_ClusterCapacityStatus ''b''])
     \<in> set (calls (capacityTargetSyncHandler
                     (example_env (example_ct [example_owner ''uid-1'']
                                     [spec_cluster ''b'' 30, spec_cluster ''a'' 30] []) ''10'')
                     ''ns/ct''))
   \<and> sorted (map status_Name (Status_Clusters
         (example_ct [example_owner ''uid-1''] [spec_cluster ''b'' 30, spec_cluster ''a'' 30]
            [zero_ClusterCapacityStatus ''a'', zero_ClusterCapacityStatus ''b''])))"
proof -
  have h: "UpdateCall (example_ct [example_owner ''uid-1''] [spec_cluster ''b'' 30, spec_cluster ''a'' 30]
                 [zero_ClusterCapacityStatus ''a'', zero_ClusterCapacityStatus ''b''])
     \<in> set (calls (capacityTargetSyncHandler
                     (example_env (example_ct [example_owner ''uid-1'']
                                     [spec_cluster ''b'' 30, spec_cluster ''a'' 30] []) ''10'')
                     ''ns/ct''))"
    by code_simp
  show ?thesis
    using h persisted_status_sorted_by_name [OF h] by blast
qed

text \<open>
  C7. The claim: every sync that passes the owner and annotation checks attempts exactly
  one update and returns nil. On the input of C10 the sync passes both checks and then
  panics: it returns nothing and makes no update call.
\<close>

theorem nil_replicas_sync_evaluated:
  "returned (capacityTargetSyncHandler env_nil_replicas ''ns/ct'') = Crashes
   \<and> persisted (calls (capacityTargetSyncHandler env_nil_replicas ''ns/ct'')) = None
   \<and> filter isUpdateCall (calls (capacityTargetSyncHandler env_nil_replicas ''ns/ct'')) = []"
  by code_simp

text \<open>
  The counterexample to C8 as stated: with the annotation \<open>0\<close> the sync returns nil and
  patches the deployment to 0 replicas; the function returns 0 for the total 0 and -5 for
  50 percent of -10.
\<close>

theorem nonpositive_total_counterexample:
  "Atoi ''0'' = Some 0
   \<and> returned (capacityTargetSyncHandler
        (example_env (example_ct [example_owner ''uid-1''] [spec_cluster ''a'' 30] []) ''0'')
        ''ns/ct'') = ReturnsNil
   \<and> PatchCall ''a'' ''ns'' ''app'' 0
       \<in> set (calls (capacityTargetSyncHandler
            (example_env (example_ct [example_owner ''uid-1''] [spec_cluster ''a'' 30] []) ''0'')
            ''ns/ct''))
   \<and> calculateReplicaCountFromPercentage 0 30 = 0
   \<and> calculateReplicaCountFromPercentage (- 10) 50 = - 5"
  by code_simp

text \<open>
  C8, as amended. The claim: a non-positive total is rejected with a configuration error.
  The code has no such check: \<open>calculateReplicaCountFromPercentage\<close> has one result, an
  \<open>int32\<close>, and so has \<open>calculatePercentageFromAmount\<close> at its call; the handler uses
  both values as they come. What holds: when the owner is valid and the annotation parses
  to a non-positive total, the sync returns no error (it returns nil, unless it panics),
  and for the total 0 the replica count is 0 whatever the percentage.
\<close>

theorem nonpositive_total_is_not_rejected:
  assumes "SplitMetaNamespaceKey key = Some (namespace, name)"
    and "getCapacityTarget env namespace name = Inr ct"
    and "getReleaseForCapacityTarget env ct = Inr release"
    and "Atoi (annotation (release_Annotations release) (ReleaseReplicasAnnotation env)) = Some total'"
    and "total' \<le> 0"
  shows "(returned (capacityTargetSyncHandler env key) = ReturnsNil
          \<or> returned (capacityTargetSyncHandler env key) = Crashes)
         \<and> calculateReplicaCountFromPercentage 0 percentage = 0"
  using assms
  by (auto simp: capacityTargetSyncHandler_def syncCapacityTarget_def
      calculateReplicaCountFromPercentage_zero_total split: run.splits)

theorem nonpositive_total_witness:
  "(returned (capacityTargetSyncHandler
        (example_env (example_ct [example_owner ''uid-1''] [spec_cluster ''a'' 30] []) ''-10'')
        ''ns/ct'') = ReturnsNil
    \<or> returned (capacityTargetSyncHandler
        (example_env (example_ct [example_owner ''uid-1''] [spec_cluster ''a'' 30] []) ''-10'')
        ''ns/ct'') = Crashes)
   \<and> calculateReplicaCountFromPercentage 0 30 = 0"
proof -
  let ?ct = "example_ct [example_owner ''uid-1''] [spec_cluster ''a'' 30] []"
  let ?release = "\<lparr>release_UID = ''uid-1'', release_Annotations = [(''replicas'', ''-10'')]\<rparr>"
  have k: "SplitMetaNamespaceKey ''ns/ct'' = Some (''ns'', ''ct'')"
    by code_simp
  have g: "getCapacityTarget (example_env ?ct ''-10'') ''ns'' ''ct'' = Inr ?ct"
    by (simp add: example_env_def example_ct_def)
  have r: "getReleaseForCapacityTarget (example_env ?ct ''-10'') ?ct = Inr ?release"
    by code_simp
  have a: "Atoi (annotation (release_Annotations ?release)
             (ReleaseReplicasAnnotation (example_env ?ct ''-10''))) = Some (- 10)"
    by code_simp
  have n: "(- 10 :: int) \<le> 0" by simp
  show ?thesis
    using nonpositive_total_is_not_rejected [OF k g r a n, of 30] .
qed

section \<open>What the reconciler writes through its pointer\<close>


text \<open>
  When the deployment listing of a cluster returns any number of deployments other than
  one, the struct that \<open>clusterStatus\<close> points to is set to \<open>Ready = False\<close> with reason
  \<open>MissingDeployment\<close>; the calls made for the cluster are the informer lookup, the listing
  and the warning event, so no patch; and the loop goes on with the next cluster. The
  struct is the cluster's entry in the slice only when the cluster had an entry before.
\<close>

lemma deployment_count_not_one:
  assumes res: "resolveClusterStatus clusterSpec st = (clusterStatus, st1)"
    and gif: "GetInformerFactory env (st_trace st) (target_Name clusterSpec) = None"
    and ld: "ListDeployments env (st_trace st @ [GetInformerFactoryCall (target_Name clusterSpec)])
               (target_Name clusterSpec) (ct_Namespace ct) (ct_Labels ct) = Inr deploymentsList"
    and len: "length deploymentsList \<noteq> 1"
  shows "\<exists>st'. syncClusterSpec env ct t clusterSpec st = Returns () st'
           \<and> deref clusterStatus st'
             = SetClusterCapacityCondition (deref clusterStatus st1)
                 (NewClusterCapacityCondition ClusterConditionTypeReady ConditionFalse
                    MissingDeployment
                    (ErrorMessage (DeploymentCountError (target_Name clusterSpec)
                       (ct_Namespace ct) (ct_Labels ct) (length deploymentsList))))
           \<and> GetClusterCapacityCondition (deref clusterStatus st') ClusterConditionTypeReady
             = Some (NewClusterCapacityCondition ClusterConditionTypeReady ConditionFalse
                       MissingDeployment
                       (ErrorMessage (DeploymentCountError (target_Name clusterSpec)
                          (ct_Namespace ct) (ct_Labels ct) (length deploymentsList))))
           \<and> st_trace st'
             = st_trace st
               @ [GetInformerFactoryCall (target_Name clusterSpec),
                  ListDeploymentsCall (target_Name clusterSpec) (ct_Namespace ct) (ct_Labels ct),
                  EventCall EventTypeWarning ''FailedCapacityChange''
                    (ErrorEvent (DeploymentCountError (target_Name clusterSpec)
                       (ct_Namespace ct) (ct_Labels ct) (length deploymentsList)))]
           \<and> syncClusters env ct t (clusterSpec # rest) st = syncClusters env ct t rest st'"
proof -
  let ?n = "target_Name clusterSpec"
  let ?err = "DeploymentCountError ?n (ct_Namespace ct) (ct_Labels ct) (length deploymentsList)"
  let ?st2 = "record_action (ListDeploymentsCall ?n (ct_Namespace ct) (ct_Labels ct))
                (record_action (GetInformerFactoryCall ?n) st1)"
  let ?st3 = "setCondition clusterStatus ClusterConditionTypeReady ConditionFalse
                MissingDeployment (ErrorMessage ?err) ?st2"
  have tr: "st_trace st1 = st_trace st"
    by (rule resolveClusterStatus_trace [OF res])
  have valid: "valid_ptr clusterStatus ?st2"
    using resolveClusterStatus_valid [OF res] by simp
  have find: "findTargetDeploymentForClusterSpec env clusterSpec (ct_Namespace ct) (ct_Labels ct)
                clusterStatus st1 = (Inl ?err, ?st3)"
    using gif ld len by (simp add: findTargetDeploymentForClusterSpec_def Let_def tr)
  have body: "syncClusterSpec env ct t clusterSpec st = Returns () (recordErrorEvent ?err ?st3)"
    using res find by (simp add: syncClusterSpec_def)
  have cond: "GetClusterCapacityCondition (deref clusterStatus (recordErrorEvent ?err ?st3))
                ClusterConditionTypeReady
              = Some (NewClusterCapacityCondition ClusterConditionTypeReady ConditionFalse
                        MissingDeployment (ErrorMessage ?err))"
    using GetClusterCapacityCondition_Set_same
            [of "deref clusterStatus ?st2"
                "NewClusterCapacityCondition ClusterConditionTypeReady ConditionFalse
                   MissingDeployment (ErrorMessage ?err)"]
    by (simp add: deref_setCondition [OF valid])
  have trace: "st_trace (recordErrorEvent ?err ?st3)
               = st_trace st @ [GetInformerFactoryCall ?n,
                   ListDeploymentsCall ?n (ct_Namespace ct) (ct_Labels ct),
                   EventCall EventTypeWarning ''FailedCapacityChange'' (ErrorEvent ?err)]"
    by (simp add: tr)
  have set: "deref clusterStatus (recordErrorEvent ?err ?st3)
             = SetClusterCapacityCondition (deref clusterStatus st1)
                 (NewClusterCapacityCondition ClusterConditionTypeReady ConditionFalse
                    MissingDeployment (ErrorMessage ?err))"
    by (simp add: deref_setCondition [OF valid])
  show ?thesis
    using body set cond trace by simp
qed

text \<open>An instance: two deployments match, and the pointer is to the struct of line 267.\<close>

lemma deployment_count_not_one_witness:
  "\<exists>st'. syncClusterSpec env_two_deployments ct_one 10 (spec_cluster ''a'' 30)
            (initial_state ct_one) = Returns () st'
         \<and> GetClusterCapacityCondition (deref Local st') ClusterConditionTypeReady
           = Some (NewClusterCapacityCondition ClusterConditionTypeReady ConditionFalse
                     MissingDeployment
                     (ErrorMessage (DeploymentCountError ''a'' ''ns'' [(''app'', ''x'')] 2)))
         \<and> st_trace st'
           = [GetInformerFactoryCall ''a'', ListDeploymentsCall ''a'' ''ns'' [(''app'', ''x'')],
              EventCall EventTypeWarning ''FailedCapacityChange''
                (ErrorEvent (DeploymentCountError ''a'' ''ns'' [(''app'', ''x'')] 2))]
         \<and> syncClusters env_two_deployments ct_one 10 [spec_cluster ''a'' 30]
             (initial_state ct_one)
           = syncClusters env_two_deployments ct_one 10 [] st'"
proof -
  let ?z = "zero_ClusterCapacityStatus ''a''"
  let ?st1 = "\<lparr>st_Clusters = [?z], st_local = ?z, st_trace = []\<rparr>"
  let ?d = "example_deployment (Some 3) 3"
  have res: "resolveClusterStatus (spec_cluster ''a'' 30) (initial_state ct_one) = (Local, ?st1)"
    by code_simp
  have gif: "GetInformerFactory env_two_deployments (st_trace (initial_state ct_one))
               (target_Name (spec_cluster ''a'' 30)) = None"
    by code_simp
  have ld: "ListDeployments env_two_deployments
              (st_trace (initial_state ct_one)
               @ [GetInformerFactoryCall (target_Name (spec_cluster ''a'' 30))])
              (target_Name (spec_cluster ''a'' 30)) (ct_Namespace ct_one) (ct_Labels ct_one)
            = Inr [?d, ?d]"
    by code_simp
  have len: "length [?d, ?d] \<noteq> 1"
    by simp
  have n: "target_Name (spec_cluster ''a'' 30) = ''a''" "ct_Namespace ct_one = ''ns''"
    "ct_Labels ct_one = [(''app'', ''x'')]" "st_trace (initial_state ct_one) = []"
    by (simp_all add: spec_cluster_def ct_one_def example_ct_def initial_state_def)
  show ?thesis
    using deployment_count_not_one [OF res gif ld len, of 10 "[]"]
    by (auto simp: n numeral_2_eq_2)
qed

text \<open>
  When the deployment was found, no patch failed, and the pod listing reports a pod count
  other than the replica count in the spec of the cached deployment, the struct that
  \<open>clusterStatus\<close> points to is set to \<open>Ready = False\<close> with reason \<open>WrongPodCount\<close>,
  after the available replicas and the achieved percent; its \<open>SadPods\<close> and its
  \<open>Operational\<close> condition are what they were before the cluster was processed; the pod
  listing is the last call for the cluster, and the loop goes on with the next cluster.
  The struct is the cluster's entry in the slice only when the cluster had an entry
  before, and the replica count is the one read before the patch.
\<close>

lemma pod_count_mismatch:
  assumes res: "resolveClusterStatus clusterSpec st = (clusterStatus, st1)"
    and find: "findTargetDeploymentForClusterSpec env clusterSpec (ct_Namespace ct) (ct_Labels ct)
                 clusterStatus st1 = (Inr targetDeployment, st2)"
    and patch: "patchIfNeeded env targetDeployment (target_Name clusterSpec)
                  (calculateReplicaCountFromPercentage (int32_of_int t) (Percent clusterSpec))
                  clusterStatus st2 = (None, st3)"
    and replicas: "Spec_Replicas targetDeployment = Some replicas"
    and pods: "getSadPodsForDeploymentOnCluster env (st_trace st3) targetDeployment
                 (target_Name clusterSpec) = Inr (podCount, sadPodsCount, sadPods)"
    and ne: "replicas \<noteq> podCount"
  shows "\<exists>st'. syncClusterSpec env ct t clusterSpec st = Returns () st'
           \<and> deref clusterStatus st'
             = SetClusterCapacityCondition
                 ((deref clusterStatus st1)
                    \<lparr>AvailableReplicas := Status_AvailableReplicas targetDeployment,
                     AchievedPercent :=
                       calculatePercentageFromAmount env (int32_of_int t)
                         (Status_AvailableReplicas targetDeployment)\<rparr>)
                 (NewClusterCapacityCondition ClusterConditionTypeReady ConditionFalse
                    WrongPodCount
                    (ErrorMessage (InvalidPodCountError replicas (int32_of_int podCount))))
           \<and> GetClusterCapacityCondition (deref clusterStatus st') ClusterConditionTypeReady
             = Some (NewClusterCapacityCondition ClusterConditionTypeReady ConditionFalse
                       WrongPodCount
                       (ErrorMessage (InvalidPodCountError replicas (int32_of_int podCount))))
           \<and> SadPods (deref clusterStatus st') = SadPods (deref clusterStatus st1)
           \<and> GetClusterCapacityCondition (deref clusterStatus st') ClusterConditionTypeOperational
             = GetClusterCapacityCondition (deref clusterStatus st1) ClusterConditionTypeOperational
           \<and> st_trace st' = st_trace st3 @ [ListPodsCall targetDeployment (target_Name clusterSpec)]
           \<and> syncClusters env ct t (clusterSpec # rest) st = syncClusters env ct t rest st'"
proof -
  let ?rc = "calculateReplicaCountFromPercentage (int32_of_int t) (Percent clusterSpec)"
  let ?n = "target_Name clusterSpec"
  let ?err = "InvalidPodCountError replicas (int32_of_int podCount)"
  define stb where "stb = modify clusterStatus
      (\<lambda>s. s\<lparr>AchievedPercent := calculatePercentageFromAmount env (int32_of_int t) (AvailableReplicas s)\<rparr>)
      (modify clusterStatus (\<lambda>s. s\<lparr>AvailableReplicas := Status_AvailableReplicas targetDeployment\<rparr>) st3)"
  define stc where "stc = setCondition clusterStatus ClusterConditionTypeReady ConditionFalse
      WrongPodCount (ErrorMessage ?err) (record_action (ListPodsCall targetDeployment ?n) stb)"
  have d12: "deref clusterStatus st2 = deref clusterStatus st1"
    and v12: "valid_ptr clusterStatus st2"
    using findTargetDeploymentForClusterSpec_found [OF find] resolveClusterStatus_valid [OF res]
    by simp_all
  have d23: "deref clusterStatus st3 = deref clusterStatus st2"
    and v3: "valid_ptr clusterStatus st3"
    using patchIfNeeded_ok [OF patch] v12 by simp_all
  have nm: "status_Name (deref clusterStatus st3) = ?n"
    using d12 d23 resolveClusterStatus_name [OF res] by simp
  have db: "deref clusterStatus stb
            = (deref clusterStatus st3)
                \<lparr>AvailableReplicas := Status_AvailableReplicas targetDeployment,
                 AchievedPercent := calculatePercentageFromAmount env (int32_of_int t)
                                      (Status_AvailableReplicas targetDeployment)\<rparr>"
    using v3 by (simp add: stb_def deref_modify)
  have vb: "valid_ptr clusterStatus stb" using v3 by (simp add: stb_def)
  have trb: "st_trace stb = st_trace st3" by (simp add: stb_def)
  have sad: "getSadPods env targetDeployment clusterStatus stb = Returns (Inl ?err) stc"
    using replicas pods ne nm db trb by (simp add: getSadPods_def Let_def stc_def)
  have upd: "updateClusterStatus env t targetDeployment ?rc clusterStatus st3 = Returns () stc"
    using sad by (simp add: updateClusterStatus_def Let_def stb_def)
  have body: "syncClusterSpec env ct t clusterSpec st = Returns () stc"
    using res find patch upd by (simp add: syncClusterSpec_def Let_def)
  have dc: "deref clusterStatus stc
            = SetClusterCapacityCondition (deref clusterStatus stb)
                (NewClusterCapacityCondition ClusterConditionTypeReady ConditionFalse
                   WrongPodCount (ErrorMessage ?err))"
    using vb by (simp add: stc_def deref_setCondition)
  have ready: "GetClusterCapacityCondition (deref clusterStatus stc) ClusterConditionTypeReady
               = Some (NewClusterCapacityCondition ClusterConditionTypeReady ConditionFalse
                         WrongPodCount (ErrorMessage ?err))"
    using GetClusterCapacityCondition_Set_same
            [of "deref clusterStatus stb"
                "NewClusterCapacityCondition ClusterConditionTypeReady ConditionFalse
                   WrongPodCount (ErrorMessage ?err)"]
    by (simp add: dc)
  have oper: "GetClusterCapacityCondition (deref clusterStatus stc) ClusterConditionTypeOperational
              = GetClusterCapacityCondition (deref clusterStatus st1) ClusterConditionTypeOperational"
    by (simp add: dc GetClusterCapacityCondition_Set_other db d23 d12)
       (simp add: GetClusterCapacityCondition_def)
  have sadpods: "SadPods (deref clusterStatus stc) = SadPods (deref clusterStatus st1)"
    by (simp add: dc db d23 d12)
  have trace: "st_trace stc = st_trace st3 @ [ListPodsCall targetDeployment ?n]"
    by (simp add: stc_def trb)
  have set: "deref clusterStatus stc
             = SetClusterCapacityCondition
                 ((deref clusterStatus st1)
                    \<lparr>AvailableReplicas := Status_AvailableReplicas targetDeployment,
                     AchievedPercent :=
                       calculatePercentageFromAmount env (int32_of_int t)
                         (Status_AvailableReplicas targetDeployment)\<rparr>)
                 (NewClusterCapacityCondition ClusterConditionTypeReady ConditionFalse
                    WrongPodCount (ErrorMessage ?err))"
    by (simp add: dc db d23 d12)
  show ?thesis
    using body set ready oper sadpods trace by simp
qed

text \<open>An instance: three replicas in the cached spec, two pods listed.\<close>

lemma pod_count_mismatch_witness:
  "\<exists>st'. syncClusterSpec env_two_pods ct_one 10 (spec_cluster ''a'' 30) (initial_state ct_one)
          = Returns () st'
         \<and> GetClusterCapacityCondition (deref Local st') ClusterConditionTypeReady
           = Some (NewClusterCapacityCondition ClusterConditionTypeReady ConditionFalse
                     WrongPodCount (ErrorMessage (InvalidPodCountError 3 2)))
         \<and> SadPods (deref Local st') = []
         \<and> GetClusterCapacityCondition (deref Local st') ClusterConditionTypeOperational = None
         \<and> st_trace st'
           = [GetInformerFactoryCall ''a'', ListDeploymentsCall ''a'' ''ns'' [(''app'', ''x'')],
              ListPodsCall (example_deployment (Some 3) 3) ''a'']"
proof -
  let ?z = "zero_ClusterCapacityStatus ''a''"
  let ?st1 = "\<lparr>st_Clusters = [?z], st_local = ?z, st_trace = []\<rparr>"
  let ?st2 = "\<lparr>st_Clusters = [?z], st_local = ?z,
               st_trace = [GetInformerFactoryCall ''a'',
                           ListDeploymentsCall ''a'' ''ns'' [(''app'', ''x'')]]\<rparr>"
  let ?d = "example_deployment (Some 3) 3"
  have res: "resolveClusterStatus (spec_cluster ''a'' 30) (initial_state ct_one) = (Local, ?st1)"
    by code_simp
  have find: "findTargetDeploymentForClusterSpec env_two_pods (spec_cluster ''a'' 30)
                (ct_Namespace ct_one) (ct_Labels ct_one) Local ?st1 = (Inr ?d, ?st2)"
    by code_simp
  have patch: "patchIfNeeded env_two_pods ?d (target_Name (spec_cluster ''a'' 30))
                 (calculateReplicaCountFromPercentage (int32_of_int 10)
                    (Percent (spec_cluster ''a'' 30)))
                 Local ?st2 = (None, ?st2)"
    by code_simp
  have replicas: "Spec_Replicas ?d = Some 3"
    by code_simp
  have pods: "getSadPodsForDeploymentOnCluster env_two_pods (st_trace ?st2) ?d
                (target_Name (spec_cluster ''a'' 30)) = Inr (2, 0, [])"
    by code_simp
  have ne: "(3::int) \<noteq> 2" by simp
  have n: "target_Name (spec_cluster ''a'' 30) = ''a''" "int32_of_int 2 = 2"
    "deref Local ?st1 = ?z"
    by (simp_all add: spec_cluster_def int32_of_int_def deref_def)
  have z: "SadPods ?z = []"
    "GetClusterCapacityCondition ?z ClusterConditionTypeOperational = None"
    by (simp_all add: zero_ClusterCapacityStatus_def GetClusterCapacityCondition_def)
  show ?thesis
    using pod_count_mismatch [OF res find patch replicas pods ne, of "[]"]
    by (auto simp: n z)
qed

section \<open>The claims about one cluster\<close>

text \<open>
  C5. The claim: a cluster whose deployment listing returns a number of deployments other
  than one gets \<open>Ready = False\<close> with reason \<open>MissingDeployment\<close> on its status, no patch
  is issued for it, and the loop moves on. On a cluster without a status entry, with two
  matching deployments, no patch is issued and the sync goes on to the update; but the
  condition went to the struct of line 267, and the cluster's entry, the copy that line
  270 appended, is passed to the update zero-valued, with no \<open>Ready\<close> condition.
\<close>

theorem two_deployments_sync_evaluated:
  "returned (capacityTargetSyncHandler env_two_deployments ''ns/ct'') = ReturnsNil
   \<and> calls (capacityTargetSyncHandler env_two_deployments ''ns/ct'')
     = [GetInformerFactoryCall ''a'', ListDeploymentsCall ''a'' ''ns'' [(''app'', ''x'')],
        EventCall EventTypeWarning ''FailedCapacityChange''
          (ErrorEvent (DeploymentCountError ''a'' ''ns'' [(''app'', ''x'')] 2)),
        UpdateCall (example_ct [example_owner ''uid-1''] [spec_cluster ''a'' 30]
                      [zero_ClusterCapacityStatus ''a'']),
        EventCall EventTypeNormal ''CapacityTargetChanged''
          (StatusSetEvent (''ns'', ''ct'') [zero_ClusterCapacityStatus ''a''])]
   \<and> persisted (calls (capacityTargetSyncHandler env_two_deployments ''ns/ct''))
     = Some [zero_ClusterCapacityStatus ''a'']
   \<and> GetClusterCapacityCondition (zero_ClusterCapacityStatus ''a'') ClusterConditionTypeReady
     = None"
  by code_simp

text \<open>
  The same listing for a cluster that has an entry: the condition is written into the
  slice and reaches the update.
\<close>

lemma two_deployments_with_entry_evaluated:
  "persisted (calls (capacityTargetSyncHandler env_two_deployments_seen ''ns/ct''))
   = Some [\<lparr>status_Name = ''a'', AvailableReplicas = 0, AchievedPercent = 0, SadPods = [],
            Conditions =
              [NewClusterCapacityCondition ClusterConditionTypeReady ConditionFalse
                 MissingDeployment
                 (ErrorMessage (DeploymentCountError ''a'' ''ns'' [(''app'', ''x'')] 2))]\<rparr>]"
  by code_simp

text \<open>
  C6. The claim: a cluster whose pod listing reports a pod count other than the replica
  count of the target deployment's spec (2 pods when 3 replicas were requested) gets
  \<open>Ready = False\<close> with reason \<open>WrongPodCount\<close>, and nothing more is done for it. The code
  compares the pod count with the spec of the deployment read before the patch; what the
  patch returns is dropped at line 289. On a cluster with a status entry whose cached
  deployment has 2 replicas, with 30 percent of 10 requested, that is 3, the patch to 3
  succeeding and 2 pods listed, the counts 2 and 2 agree: the sync records that it scaled
  to 3 replicas and passes \<open>Ready = True\<close> and \<open>Operational = True\<close> to the update.
  And on a cluster without a status entry, with 3 replicas cached and 2 pods listed, the
  condition \<open>WrongPodCount\<close> goes to the struct of line 267, and the entry passed to the
  update is zero-valued, with no \<open>Ready\<close> condition.
\<close>

theorem stale_replica_count_evaluated:
  "calculateReplicaCountFromPercentage (int32_of_int 10) 30 = 3
   \<and> returned (capacityTargetSyncHandler env_stale_replicas ''ns/ct'') = ReturnsNil
   \<and> calls (capacityTargetSyncHandler env_stale_replicas ''ns/ct'')
     = [GetInformerFactoryCall ''a'', ListDeploymentsCall ''a'' ''ns'' [(''app'', ''x'')],
        GetClientCall ''a'', PatchCall ''a'' ''ns'' ''app'' 3,
        ListPodsCall (example_deployment (Some 2) 2) ''a'',
        EventCall EventTypeNormal ''CapacityChanged'' (ScaledEvent (''ns'', ''app'') 3),
        UpdateCall (example_ct [example_owner ''uid-1''] [spec_cluster ''a'' 30]
          [\<lparr>status_Name = ''a'', AvailableReplicas = 2, AchievedPercent = 20, SadPods = [],
             Conditions =
               [NewClusterCapacityCondition ClusterConditionTypeReady ConditionTrue NoReason
                  NoMessage,
                NewClusterCapacityCondition ClusterConditionTypeOperational ConditionTrue
                  NoReason NoMessage]\<rparr>]),
        EventCall EventTypeNormal ''CapacityTargetChanged''
          (StatusSetEvent (''ns'', ''ct'')
             [\<lparr>status_Name = ''a'', AvailableReplicas = 2, AchievedPercent = 20, SadPods = [],
                Conditions =
                  [NewClusterCapacityCondition ClusterConditionTypeReady ConditionTrue NoReason
                     NoMessage,
                   NewClusterCapacityCondition ClusterConditionTypeOperational ConditionTrue
                     NoReason NoMessage]\<rparr>])]
   \<and> persisted (calls (capacityTargetSyncHandler env_two_pods ''ns/ct''))
     = Some [zero_ClusterCapacityStatus ''a'']
   \<and> GetClusterCapacityCondition (zero_ClusterCapacityStatus ''a'') ClusterConditionTypeReady
     = None"
  by code_simp

text \<open>
  C10. There is an input on which the pod-count check of \<open>getSadPods\<close> panics instead of
  reporting \<open>WrongPodCount\<close>: a capacity target with a valid owner and a total that
  parses, and among its spec clusters one whose single matching deployment has a nil
  \<open>Spec.Replicas\<close>. The handler then patches that deployment (nil counts as a
  difference), drops the deployment the patch returns, and hands the cached one to
  \<open>getSadPods\<close>; when the pods can be listed, line 413 reads through the nil pointer. The
  last call of the sync is the pod listing; nothing is updated.
\<close>

theorem nil_replicas_crash:
  assumes key: "SplitMetaNamespaceKey key = Some (namespace, name)"
    and get: "getCapacityTarget env namespace name = Inr ct"
    and rel: "getReleaseForCapacityTarget env ct = Inr release"
    and atoi: "Atoi (annotation (release_Annotations release) (ReleaseReplicasAnnotation env))
               = Some t"
    and spec: "Spec_Clusters ct = before @ clusterSpec # rest"
    and pre: "syncClusters env ct t before (initial_state ct) = Returns () st"
    and res: "resolveClusterStatus clusterSpec st = (clusterStatus, st1)"
    and find: "findTargetDeploymentForClusterSpec env clusterSpec (ct_Namespace ct) (ct_Labels ct)
                 clusterStatus st1 = (Inr targetDeployment, st2)"
    and nil: "Spec_Replicas targetDeployment = None"
    and patch: "patchDeploymentWithReplicaCount env targetDeployment (target_Name clusterSpec)
                  (calculateReplicaCountFromPercentage (int32_of_int t) (Percent clusterSpec))
                  clusterStatus st2 = (Inr updatedDeployment, st3)"
    and pods: "getSadPodsForDeploymentOnCluster env (st_trace st3) targetDeployment
                 (target_Name clusterSpec) = Inr pods"
  shows "returned (capacityTargetSyncHandler env key) = Crashes
         \<and> calls (capacityTargetSyncHandler env key)
           = st_trace st3 @ [ListPodsCall targetDeployment (target_Name clusterSpec)]"
proof -
  let ?rc = "calculateReplicaCountFromPercentage (int32_of_int t) (Percent clusterSpec)"
  let ?n = "target_Name clusterSpec"
  let ?P = "\<lambda>a. \<not> isUpdateCall a"
  have s12: "steps clusterStatus ?P st1 st2"
    using findTargetDeploymentForClusterSpec_steps [OF find] by (rule steps_mono) simp
  have s23: "steps clusterStatus ?P st2 st3"
    by (rule patchDeploymentWithReplicaCount_steps [OF patch])
  have s13: "steps clusterStatus ?P st1 st3"
    by (rule steps_trans [OF s23 s12])
  have valid: "valid_ptr clusterStatus st3"
    using steps_valid_ptr [OF s13] resolveClusterStatus_valid [OF res] by simp
  have nm: "status_Name (deref clusterStatus st3) = ?n"
    using steps_deref_name [OF s13] resolveClusterStatus_name [OF res] by simp
  define stb where "stb = modify clusterStatus
      (\<lambda>s. s\<lparr>AchievedPercent := calculatePercentageFromAmount env (int32_of_int t) (AvailableReplicas s)\<rparr>)
      (modify clusterStatus (\<lambda>s. s\<lparr>AvailableReplicas := Status_AvailableReplicas targetDeployment\<rparr>) st3)"
  have nmb: "status_Name (deref clusterStatus stb) = ?n"
    unfolding stb_def using updateClusterStatus_name [OF valid] nm by simp
  have trb: "st_trace stb = st_trace st3"
    by (simp add: stb_def)
  have sad: "getSadPods env targetDeployment clusterStatus stb
             = Panics (record_action (ListPodsCall targetDeployment ?n) stb)"
    using getSadPods_nil_replicas [of targetDeployment env stb clusterStatus pods] nil pods nmb trb
    by simp
  have upd: "updateClusterStatus env t targetDeployment ?rc clusterStatus st3
             = Panics (record_action (ListPodsCall targetDeployment ?n) stb)"
    using sad by (simp add: updateClusterStatus_def Let_def stb_def)
  have pin: "patchIfNeeded env targetDeployment ?n ?rc clusterStatus st2 = (None, st3)"
    using nil patch by (simp add: patchIfNeeded_def)
  have body: "syncClusterSpec env ct t clusterSpec st
              = Panics (record_action (ListPodsCall targetDeployment ?n) stb)"
    using res find pin upd by (simp add: syncClusterSpec_def Let_def)
  have loop: "syncClusters env ct t (Spec_Clusters ct) (initial_state ct)
              = Panics (record_action (ListPodsCall targetDeployment ?n) stb)"
    using pre body by (simp add: spec syncClusters_append)
  show ?thesis
    using key get rel atoi loop trb
    by (simp add: capacityTargetSyncHandler_def syncCapacityTarget_def)
qed

text \<open>The witness: one cluster, the patch to 3 replicas succeeds, three pods are listed.\<close>

theorem nil_replicas_crash_witness:
  "returned (capacityTargetSyncHandler env_nil_replicas ''ns/ct'') = Crashes
   \<and> calls (capacityTargetSyncHandler env_nil_replicas ''ns/ct'')
     = [GetInformerFactoryCall ''a'', ListDeploymentsCall ''a'' ''ns'' [(''app'', ''x'')],
        GetClientCall ''a'', PatchCall ''a'' ''ns'' ''app'' 3,
        ListPodsCall (example_deployment None 3) ''a'']"
proof -
  let ?z = "zero_ClusterCapacityStatus ''a''"
  let ?st1 = "\<lparr>st_Clusters = [?z], st_local = ?z, st_trace = []\<rparr>"
  let ?st2 = "\<lparr>st_Clusters = [?z], st_local = ?z,
               st_trace = [GetInformerFactoryCall ''a'',
                           ListDeploymentsCall ''a'' ''ns'' [(''app'', ''x'')]]\<rparr>"
  let ?st3 = "\<lparr>st_Clusters = [?z], st_local = ?z,
               st_trace = [GetInformerFactoryCall ''a'',
                           ListDeploymentsCall ''a'' ''ns'' [(''app'', ''x'')],
                           GetClientCall ''a'', PatchCall ''a'' ''ns'' ''app'' 3]\<rparr>"
  let ?release = "\<lparr>release_UID = ''uid-1'', release_Annotations = [(''replicas'', ''10'')]\<rparr>"
  have get: "getCapacityTarget env_nil_replicas ''ns'' ''ct'' = Inr ct_one"
    by code_simp
  have rel: "getReleaseForCapacityTarget env_nil_replicas ct_one = Inr ?release"
    by code_simp
  have atoi: "Atoi (annotation (release_Annotations ?release)
                (ReleaseReplicasAnnotation env_nil_replicas)) = Some 10"
    by code_simp
  have spec: "Spec_Clusters ct_one = [] @ spec_cluster ''a'' 30 # []"
    by code_simp
  have pre: "syncClusters env_nil_replicas ct_one 10 [] (initial_state ct_one)
             = Returns () (initial_state ct_one)"
    by simp
  have res: "resolveClusterStatus (spec_cluster ''a'' 30) (initial_state ct_one) = (Local, ?st1)"
    by code_simp
  have find: "findTargetDeploymentForClusterSpec env_nil_replicas (spec_cluster ''a'' 30)
                (ct_Namespace ct_one) (ct_Labels ct_one) Local ?st1
              = (Inr (example_deployment None 3), ?st2)"
    by code_simp
  have nil: "Spec_Replicas (example_deployment None 3) = None"
    by code_simp
  have patch: "patchDeploymentWithReplicaCount env_nil_replicas (example_deployment None 3)
                 (target_Name (spec_cluster ''a'' 30))
                 (calculateReplicaCountFromPercentage (int32_of_int 10)
                    (Percent (spec_cluster ''a'' 30)))
                 Local ?st2
               = (Inr (example_deployment (Some 3) 3), ?st3)"
    by code_simp
  have pods: "getSadPodsForDeploymentOnCluster env_nil_replicas (st_trace ?st3)
                (example_deployment None 3) (target_Name (spec_cluster ''a'' 30))
              = Inr (3, 0, [])"
    by code_simp
  have n: "target_Name (spec_cluster ''a'' 30) = ''a''"
    by (simp add: spec_cluster_def)
  show ?thesis
    using nil_replicas_crash [OF key_ns_ct get rel atoi spec pre res find nil patch pods]
    by (simp add: n)
qed

section \<open>The claims about the persisted status\<close>

text \<open>
  The counterexample to C9 as stated: the spec names \<open>a\<close> twice and the status is empty.
  The second round finds the entry that the first round appended and writes into the
  slice, so the persisted entry of \<open>a\<close> is not the zero-valued one.
\<close>

theorem cluster_named_twice_counterexample:
  "Status_Clusters ct_twice = []
   \<and> map target_Name (Spec_Clusters ct_twice) = [''a'', ''a'']
   \<and> persisted (calls (capacityTargetSyncHandler (example_env ct_twice ''10'') ''ns/ct''))
     = Some [\<lparr>status_Name = ''a'', AvailableReplicas = 3, AchievedPercent = 30, SadPods = [],
              Conditions =
                [NewClusterCapacityCondition ClusterConditionTypeReady ConditionTrue NoReason
                   NoMessage,
                 NewClusterCapacityCondition ClusterConditionTypeOperational ConditionTrue
                   NoReason NoMessage]\<rparr>]
   \<and> persisted (calls (capacityTargetSyncHandler (example_env ct_twice ''10'') ''ns/ct''))
     \<noteq> Some [zero_ClusterCapacityStatus ''a'']"
  by code_simp

text \<open>
  C9, as amended. A cluster that the spec names exactly once and that has no entry in the
  status at the start of the sync is persisted as the zero-valued entry of its name: the
  object passed to the update call has exactly one entry of that name, and it is the
  entry that line 270 appended. What the reconciler wrote for the cluster went to the
  struct of line 267, not to the appended copy.
\<close>

theorem first_seen_cluster_is_persisted_zero:
  assumes key: "SplitMetaNamespaceKey key = Some (namespace, name)"
    and get: "getCapacityTarget env namespace name = Inr ct"
    and once: "count_list (map target_Name (Spec_Clusters ct)) n = 1"
    and new: "n \<notin> status_Name ` set (Status_Clusters ct)"
    and upd: "UpdateCall ct' \<in> set (calls (capacityTargetSyncHandler env key))"
  shows "filter (\<lambda>s. status_Name s = n) (Status_Clusters ct') = [zero_ClusterCapacityStatus n]"
proof -
  have h: "capacityTargetSyncHandler env key = syncCapacityTarget env ct"
    by (rule capacityTargetSyncHandler_found [OF key get])
  from update_call_in_sync [of ct' env ct] upd h
  obtain t u and st :: sync_state where
    loop: "syncClusters env ct t (Spec_Clusters ct) (initial_state ct) = Returns u st"
    and ct': "ct' = ct\<lparr>Status_Clusters := sort_byClusterName (st_Clusters st)\<rparr>"
    by auto
  have "n \<notin> status_Name ` set (st_Clusters (initial_state ct))"
    using new by (simp add: initial_state_def)
  from syncClusters_single_entry [OF once this loop]
  have "filter (\<lambda>s. status_Name s = n) (st_Clusters st) = [zero_ClusterCapacityStatus n]" .
  then show ?thesis
    by (simp add: ct' sort_byClusterName_def filter_sort)
qed

text \<open>The witness: cluster \<open>a\<close>, named once, after \<open>b\<close>.\<close>

theorem first_seen_cluster_witness:
  "filter (\<lambda>s. status_Name s = ''a'')
     (Status_Clusters
        (example_ct [example_owner ''uid-1''] [spec_cluster ''b'' 30, spec_cluster ''a'' 30]
           [zero_ClusterCapacityStatus ''a'', zero_ClusterCapacityStatus ''b'']))
   = [zero_ClusterCapacityStatus ''a'']"
proof -
  have get: "getCapacityTarget (example_env ct_unsorted ''10'') ''ns'' ''ct'' = Inr ct_unsorted"
    by code_simp
  have once: "count_list (map target_Name (Spec_Clusters ct_unsorted)) ''a'' = 1"
    by (simp add: ct_unsorted_def example_ct_def spec_cluster_def)
  have new: "''a'' \<notin> status_Name ` set (Status_Clusters ct_unsorted)"
    by (simp add: ct_unsorted_def example_ct_def)
  have upd: "UpdateCall
               (example_ct [example_owner ''uid-1''] [spec_cluster ''b'' 30, spec_cluster ''a'' 30]
                  [zero_ClusterCapacityStatus ''a'', zero_ClusterCapacityStatus ''b''])
             \<in> set (calls (capacityTargetSyncHandler (example_env ct_unsorted ''10'') ''ns/ct''))"
    by code_simp
  show ?thesis
    by (rule first_seen_cluster_is_persisted_zero [OF key_ns_ct get once new upd])
qed

text \<open>
  C4. The claim: a failure in one cluster does not stop the others, and of three spec
  clusters with one failing, the persisted status marks the failing one, and only it,
  \<open>Operational = False\<close>. On three clusters without status entries, of which \<open>b\<close> cannot
  be reached, the sync does process \<open>c\<close> after \<open>b\<close>, records the warning event and
  persists three entries; but all three are zero-valued, and \<open>b\<close> carries no
  \<open>Operational\<close> condition at all.
\<close>

theorem one_cluster_down_evaluated:
  "returned (capacityTargetSyncHandler env_b_down ''ns/ct'') = ReturnsNil
   \<and> persisted (calls (capacityTargetSyncHandler env_b_down ''ns/ct''))
     = Some [zero_ClusterCapacityStatus ''a'', zero_ClusterCapacityStatus ''b'',
             zero_ClusterCapacityStatus ''c'']
   \<and> GetClusterCapacityCondition (zero_ClusterCapacityStatus ''b'')
       ClusterConditionTypeOperational = None
   \<and> EventCall EventTypeWarning ''FailedCapacityChange'' (ErrorEvent (ExternalError ''unreachable''))
       \<in> set (calls (capacityTargetSyncHandler env_b_down ''ns/ct''))
   \<and> GetInformerFactoryCall ''c'' \<in> set (calls (capacityTargetSyncHandler env_b_down ''ns/ct''))"
  by code_simp

end
